theory Spec2Isabelle
  imports Complex_Main
begin

section \<open>Deployment orchestration: \<open>deploy_aso_stack_with_memory.py\<close>\<close>

subsection \<open>Data\<close>

text \<open>
  Everything the script prints or hands to its (stubbed) memory service is kept as an
  event in an output log. The timestamps of \<open>log_with_timestamp\<close> and the decorative
  rules are left out; the text of each line is the constructor, its interpolated values
  the arguments.
\<close>

datatype event =
    MemoryQuery string
  | MemoryIssue string
  | MemorySuccess string
  | Banner
  | Phase string
  | Deploying string
  | PreviousIssues nat string
  | AppliedOk string
  | ApplyFailed string string
  | NoMonitoringNeeded string
  | FailedCheckMemory string
  | Monitoring string
  | TimingDataFound string
  | NoDetails string
  | ReadError string string
  | ReadyAfter string nat
  | StatusLine string
  | StillProvisioning nat
  | NotReadyWithin string nat
  | FinalMemoryUpdate
  | DeploymentSummary nat nat
  | DurationMinutes nat
  | HandoffReady
  | PartialSuccess

text \<open>An entry of \<open>self.deployment_results\<close>.\<close>

record deployment_result =
  resource :: string
  deployed :: bool
  monitored :: bool

text \<open>An entry of the list built by \<open>get_resource_details\<close>.\<close>

record resource_detail =
  rd_type :: string
  rd_name :: string
  rd_namespace :: string

text \<open>
  One element of \<open>status.conditions\<close>; a field is \<open>None\<close> when the key is absent
  (\<open>condition.get\<close> then yields \<open>None\<close>, or the default for \<open>message\<close>).
\<close>

record condition =
  ctype :: "string option"
  cstatus :: "string option"
  cmessage :: "string option"

text \<open>
  What \<open>kubectl get <type> <name> -n <ns> -o yaml\<close> followed by \<open>yaml.safe_load\<close>
  amounts to: a non-zero return code with its stderr, a parsed document with its list of
  conditions (empty when \<open>status\<close> or \<open>conditions\<close> is missing), or an exception raised
  inside the \<open>try\<close> block, with its text.
\<close>

datatype get_result =
    GetFailed string
  | GetOk "condition list"
  | GetRaises string

text \<open>The \<open>CompletedProcess\<close> of \<open>kubectl apply\<close>.\<close>

record completed_process =
  returncode :: int
  stdout :: string
  stderr :: string

text \<open>A document of a resource file as \<open>yaml.safe_load_all\<close> returns it.\<close>

record metadata =
  md_name :: "string option"
  md_namespace :: "string option"

record yaml_doc =
  kind :: "string option"
  metadata :: "metadata option"

text \<open>
  The surroundings of the script: the control plane and the file system. The reply to a
  \<open>kubectl apply\<close> may depend on how many applies came before it and on the path; the
  reply to a status query on how many queries came before it and on the resource. Each
  status query takes \<open>get_secs\<close> whole seconds of wall-clock time. \<open>yaml_docs\<close> is
  \<open>Inl\<close> the exception text when opening or parsing the file raises, and a document is
  \<open>None\<close> when it is empty.
\<close>

record world =
  apply_reply :: "nat \<Rightarrow> string \<Rightarrow> completed_process"
  get_reply :: "nat \<Rightarrow> string \<Rightarrow> string \<Rightarrow> string \<Rightarrow> get_result"
  get_secs :: "nat \<Rightarrow> nat"
  yaml_docs :: "string \<Rightarrow> string + yaml_doc option list"

text \<open>
  The instance of \<open>ASODeployerWithEnhancedMemory\<close> together with what it has done so far:
  the wall clock \<open>now\<close> (whole seconds, read by \<open>time.time()\<close>; it never goes back), the
  number of applies and of status queries issued, and the output log.
\<close>

record deployer =
  stack_dir :: string
  namespace :: string
  deployment_start :: nat
  cluster_name :: string
  resource_order :: "string list"
  deployment_results :: "deployment_result list"
  now :: nat
  applies :: nat
  gets :: nat
  out :: "event list"

definition init :: "nat \<Rightarrow> deployer" where
  "init t = \<lparr> stack_dir = ''./aso-stack'', namespace = ''azure-system'',
      deployment_start = t,
      cluster_name = ''uk8s-tsshared-weu-gt025-int-prod'',
      resource_order = [''resourcegroup.yaml'', ''identity.yaml'', ''roleassignment.yaml'',
        ''cluster.yaml'', ''federated.yaml'', ''extension.yaml'', ''fluxconfiguration.yaml''],
      deployment_results = [],
      now = t, applies = 0, gets = 0, out = [] \<rparr>"

subsection \<open>Strings\<close>

text \<open>\<open>s.replace('.yaml', '')\<close>: every occurrence is removed, scanning from the left.\<close>

fun replace_yaml :: "string \<Rightarrow> string" where
  "replace_yaml [] = []"
| "replace_yaml (c # s) =
     (if take 5 (c # s) = ''.yaml'' then replace_yaml (drop 4 s) else c # replace_yaml s)"

text \<open>\<open>str.lower\<close> on ASCII letters.\<close>

definition lower_char :: "char \<Rightarrow> char" where
  "lower_char c = (let n = (of_char c :: nat) in
     if 65 \<le> n \<and> n \<le> 90 then char_of (n + 32) else c)"

definition lower :: "string \<Rightarrow> string" where
  "lower s = map lower_char s"

subsection \<open>Logging and the memory stubs\<close>

definition emit :: "event \<Rightarrow> deployer \<Rightarrow> deployer" where
  "emit e st = st\<lparr>out := out st @ [e]\<rparr>"

definition store_issue_immediately :: "string \<Rightarrow> deployer \<Rightarrow> deployer" where
  "store_issue_immediately resource_type st = emit (MemoryIssue resource_type) st"

definition store_success_pattern :: "string \<Rightarrow> deployer \<Rightarrow> deployer" where
  "store_success_pattern resource_type st = emit (MemorySuccess resource_type) st"

text \<open>Returns the \<open>entities\<close> of the answer, which the stub leaves empty.\<close>

definition query_memory_before_action :: "string \<Rightarrow> deployer \<Rightarrow> string list \<times> deployer" where
  "query_memory_before_action query_pattern st = ([], emit (MemoryQuery query_pattern) st)"

subsection \<open>Status queries\<close>

fun find_ready :: "condition list \<Rightarrow> bool \<times> string" where
  "find_ready [] = (False, ''No Ready condition found'')"
| "find_ready (c # cs) =
     (if ctype c = Some ''Ready''
      then (cstatus c = Some ''True'', (case cmessage c of None \<Rightarrow> [] | Some m \<Rightarrow> m))
      else find_ready cs)"

text \<open>
  \<open>check_resource_status\<close> issues one status query and reads the answer:
  \<open>status_from\<close> is what it returns for a given answer.
\<close>

definition status_from :: "get_result \<Rightarrow> bool \<times> string" where
  "status_from r =
     (case r of
        GetOk conditions \<Rightarrow> find_ready conditions
      | GetFailed err \<Rightarrow> (False, ''Resource not found: '' @ err)
      | GetRaises e \<Rightarrow> (False, ''Error checking status: '' @ e))"

definition check_resource_status ::
  "world \<Rightarrow> string \<Rightarrow> string \<Rightarrow> string \<Rightarrow> deployer \<Rightarrow> (bool \<times> string) \<times> deployer" where
  "check_resource_status w resource_type resource_name ns st =
     (status_from (get_reply w (gets st) resource_type resource_name ns),
      st\<lparr>gets := gets st + 1, now := now st + get_secs w (gets st)\<rparr>)"

subsection \<open>Resource details\<close>

fun collect_details :: "yaml_doc option list \<Rightarrow> string + resource_detail list" where
  "collect_details [] = Inr []"
| "collect_details (None # docs) = collect_details docs"
| "collect_details (Some doc # docs) =
     (case kind doc of
        None \<Rightarrow> collect_details docs
      | Some k \<Rightarrow>
          if k = [] then collect_details docs
          else (case metadata doc of
                  None \<Rightarrow> Inl ''metadata''
                | Some m \<Rightarrow>
                    (case md_name m of
                       None \<Rightarrow> Inl ''name''
                     | Some n \<Rightarrow>
                         (case collect_details docs of
                            Inl e \<Rightarrow> Inl e
                          | Inr rs \<Rightarrow>
                              Inr (\<lparr> rd_type = lower k, rd_name = n,
                                     rd_namespace = (case md_namespace m of
                                                       None \<Rightarrow> ''default''
                                                     | Some x \<Rightarrow> x) \<rparr> # rs)))))"

definition get_resource_details ::
  "world \<Rightarrow> string \<Rightarrow> deployer \<Rightarrow> resource_detail list \<times> deployer" where
  "get_resource_details w resource_file st =
     (case yaml_docs w (stack_dir st @ ''/'' @ resource_file) of
        Inl e \<Rightarrow> ([], emit (ReadError resource_file e) st)
      | Inr docs \<Rightarrow>
          (case collect_details docs of
             Inl e \<Rightarrow> ([], emit (ReadError resource_file e) st)
           | Inr rs \<Rightarrow> (rs, st)))"

subsection \<open>Applying a resource\<close>

definition deploy_resource_with_memory :: "world \<Rightarrow> string \<Rightarrow> deployer \<Rightarrow> bool \<times> deployer" where
  "deploy_resource_with_memory w resource_file st =
     (let st1 = emit (Deploying resource_file) st;
          resource_type = replace_yaml resource_file;
          (entities, st2) = query_memory_before_action (''aso '' @ resource_type @ '' issues'') st1;
          st3 = (if entities \<noteq> [] then emit (PreviousIssues (length entities) resource_type) st2
                 else st2);
          result = apply_reply w (applies st3) (stack_dir st3 @ ''/'' @ resource_file);
          st4 = st3\<lparr>applies := applies st3 + 1\<rparr>
      in if returncode result = 0
         then (True, emit (AppliedOk resource_file) (store_success_pattern resource_type st4))
         else (False, emit (ApplyFailed resource_file (stderr result))
                        (store_issue_immediately resource_type st4)))"

subsection \<open>Monitoring\<close>

text \<open>
  The body of \<open>for rd in resource_details\<close>: the result is whether the function returned
  \<open>True\<close> from inside the loop, the value of \<open>last_status\<close> and the state.
\<close>

fun check_details ::
  "world \<Rightarrow> string \<Rightarrow> nat \<Rightarrow> resource_detail list \<Rightarrow> string \<Rightarrow> deployer
     \<Rightarrow> bool \<times> string \<times> deployer" where
  "check_details w resource_type monitor_start [] last_status st = (False, last_status, st)"
| "check_details w resource_type monitor_start (rd # rds) last_status st =
     (case check_resource_status w (rd_type rd) (rd_name rd) (rd_namespace rd) st of
        ((is_ready, message), st1) \<Rightarrow>
          if is_ready
          then (True, last_status,
                store_success_pattern (resource_type @ ''-timing'')
                  (emit (ReadyAfter (rd_name rd) (now st1 - monitor_start)) st1))
          else (let current_status = rd_name rd @ '': '' @ message in
                if current_status \<noteq> last_status
                then check_details w resource_type monitor_start rds current_status
                       (emit (StatusLine current_status) st1)
                else check_details w resource_type monitor_start rds last_status st1))"

lemma check_resource_status_now:
  "check_resource_status w t n ns st = (r, st') \<Longrightarrow> now st \<le> now st'"
  by (auto simp: check_resource_status_def)

lemma check_details_now:
  "check_details w rt ms rds l st = (r, l', st') \<Longrightarrow> now st \<le> now st'"
proof (induction rds arbitrary: l st)
  case Nil
  then show ?case by simp
next
  case (Cons rd rds)
  obtain b m st1 where c: "check_resource_status w (rd_type rd) (rd_name rd) (rd_namespace rd) st
      = ((b, m), st1)"
    by (metis surj_pair)
  then have le: "now st \<le> now st1"
    by (rule check_resource_status_now)
  show ?case
  proof (cases b)
    case True
    with Cons.prems c le show ?thesis
      by (auto simp: emit_def store_success_pattern_def)
  next
    case False
    let ?cur = "rd_name rd @ '': '' @ m"
    show ?thesis
    proof (cases "?cur = l")
      case True
      with False Cons.prems c have "check_details w rt ms rds l st1 = (r, l', st')"
        by (simp add: Let_def)
      with Cons.IH le show ?thesis
        by (meson le_trans)
    next
      case ne: False
      with False Cons.prems c
      have "check_details w rt ms rds ?cur (emit (StatusLine ?cur) st1) = (r, l', st')"
        by (simp add: Let_def)
      then have "now (emit (StatusLine ?cur) st1) \<le> now st'"
        by (rule Cons.IH)
      with le show ?thesis
        by (simp add: emit_def)
    qed
  qed
qed

text \<open>
  The \<open>while\<close> loop of \<open>monitor_with_memory_updates\<close>. \<open>time.time()\<close> is read once
  for the loop test and again for \<open>elapsed\<close>; both readings are \<open>now\<close>. The result is
  \<open>True\<close> when the function returned from inside the loop and \<open>False\<close> when the loop
  ran out.
\<close>

function monitor_loop ::
  "world \<Rightarrow> string \<Rightarrow> nat \<Rightarrow> nat \<Rightarrow> resource_detail list \<Rightarrow> string \<Rightarrow> deployer
     \<Rightarrow> bool \<times> deployer" where
  "monitor_loop w resource_type monitor_start expected_time resource_details last_status st =
     (if now st - monitor_start < expected_time
      then (case check_details w resource_type monitor_start resource_details last_status st of
              (returned, last_status', st1) \<Rightarrow>
                if returned then (True, st1)
                else monitor_loop w resource_type monitor_start expected_time resource_details
                       last_status'
                       ((if now st - monitor_start > 120 \<and> (now st - monitor_start) mod 60 = 0
                         then emit (StillProvisioning (now st - monitor_start)) st1
                         else st1) \<lparr>now := now st1 + 30\<rparr>))
      else (False, st))"
  by pat_completeness auto
termination
proof (relation "measure (\<lambda>(w, rt, ms, T, rds, l, st). ms + T - now st)", goal_cases)
  case 1
  show ?case by simp
next
  case (2 w rt ms T rds l st x1 x2 l' st1)
  then have "now st \<le> now st1"
    by (metis check_details_now)
  with 2 show ?case
    by (auto simp: emit_def)
qed

declare monitor_loop.simps [simp del]

definition monitor_with_memory_updates :: "world \<Rightarrow> string \<Rightarrow> deployer \<Rightarrow> bool \<times> deployer" where
  "monitor_with_memory_updates w resource_file st =
     (let st1 = emit (Monitoring resource_file) st;
          resource_type = replace_yaml resource_file;
          (timing_entities, st2) =
             query_memory_before_action (''aso '' @ resource_type @ '' provisioning time'') st1;
          expected_time = (if resource_type = ''cluster'' then 1800
                           else if resource_type = ''extension'' then 600
                           else 300);
          st3 = (if timing_entities \<noteq> [] then emit (TimingDataFound resource_type) st2 else st2);
          monitor_start = now st3;
          (resource_details, st4) = get_resource_details w resource_file st3
      in if resource_details = [] then (True, emit (NoDetails resource_file) st4)
         else (case monitor_loop w resource_type monitor_start expected_time resource_details
                      [] st4 of
                 (True, st5) \<Rightarrow> (True, st5)
               | (False, st5) \<Rightarrow>
                   (False, store_issue_immediately (resource_type @ ''-timeout'')
                             (emit (NotReadyWithin resource_type expected_time) st5))))"

subsection \<open>The deployment run\<close>

text \<open>One pass through the body of \<open>for resource_file in self.resource_order\<close>.\<close>

definition run_phase :: "world \<Rightarrow> string \<Rightarrow> deployer \<Rightarrow> deployer" where
  "run_phase w resource_file st =
     (case deploy_resource_with_memory w resource_file (emit (Phase resource_file) st) of
        (deploy_success, st1) \<Rightarrow>
          if deploy_success
          then (case (if resource_file \<in> set [''cluster.yaml'', ''extension.yaml'']
                      then monitor_with_memory_updates w resource_file st1
                      else (True, emit (NoMonitoringNeeded resource_file) st1)) of
                  (monitor_success, st2) \<Rightarrow>
                    st2\<lparr>deployment_results := deployment_results st2 @
                      [\<lparr> resource = resource_file, deployed = deploy_success,
                         monitored = monitor_success \<rparr>]\<rparr>)
          else emit (FailedCheckMemory resource_file)
                 (st1\<lparr>deployment_results := deployment_results st1 @
                    [\<lparr> resource = resource_file, deployed = False, monitored = False \<rparr>]\<rparr>))"

fun run_phases :: "world \<Rightarrow> string list \<Rightarrow> deployer \<Rightarrow> deployer" where
  "run_phases w [] st = st"
| "run_phases w (resource_file # rest) st = run_phases w rest (run_phase w resource_file st)"

definition store_deployment_summary :: "deployer \<Rightarrow> deployer" where
  "store_deployment_summary st =
     (let total_duration = now st - deployment_start st;
          success_count = length (filter deployed (deployment_results st))
      in emit (DurationMinutes (total_duration div 60))
           (emit (DeploymentSummary success_count (length (resource_order st)))
              (emit FinalMemoryUpdate st)))"

definition run_memory_guided_deployment :: "world \<Rightarrow> deployer \<Rightarrow> bool \<times> deployer" where
  "run_memory_guided_deployment w st =
     (let (entities, st1) =
             query_memory_before_action (''aso '' @ cluster_name st @ '' deployment'')
               (emit Banner st);
          st2 = run_phases w (resource_order st1) st1;
          st3 = store_deployment_summary st2;
          success_count = length (filter deployed (deployment_results st3))
      in (success_count = length (resource_order st3), st3))"

text \<open>\<open>main\<close>, started at time \<open>t\<close>; the first component is the exit code.\<close>

definition main :: "world \<Rightarrow> nat \<Rightarrow> int \<times> deployer" where
  "main w t =
     (case run_memory_guided_deployment w (init t) of
        (success, st) \<Rightarrow>
          (if success then (0, emit HandoffReady st) else (1, emit PartialSuccess st)))"

subsection \<open>Notions used in the statements\<close>

text \<open>
  Whether the \<open>n\<close>-th apply of the run, for \<open>resource_file\<close>, returns code 0.
  \<open>same_instance\<close> relates two states that differ only in the clock, the status queries
  issued and the output.
\<close>

definition same_instance :: "deployer \<Rightarrow> deployer \<Rightarrow> bool" where
  "same_instance st st' \<longleftrightarrow>
     stack_dir st' = stack_dir st \<and> resource_order st' = resource_order st \<and>
     deployment_results st' = deployment_results st \<and> applies st' = applies st"

definition apply_succeeds :: "world \<Rightarrow> string \<Rightarrow> nat \<Rightarrow> string \<Rightarrow> bool" where
  "apply_succeeds w dir n resource_file \<longleftrightarrow>
     returncode (apply_reply w n (dir @ ''/'' @ resource_file)) = 0"

text \<open>What a run appends to the result log.\<close>

definition produced :: "world \<Rightarrow> deployer \<Rightarrow> deployment_result list" where
  "produced w st =
     drop (length (deployment_results st))
       (deployment_results (snd (run_memory_guided_deployment w st)))"

section \<open>Properties of the deployment run\<close>

subsection \<open>What monitoring leaves alone\<close>

lemma same_instance_refl: "same_instance st st"
  by (simp add: same_instance_def)

lemma same_instance_trans:
  "same_instance a b \<Longrightarrow> same_instance b c \<Longrightarrow> same_instance a c"
  by (simp add: same_instance_def)

lemma same_instance_emit: "same_instance st (emit e st)"
  by (simp add: same_instance_def emit_def)

lemma same_instance_status:
  "check_resource_status w t n ns st = (r, st') \<Longrightarrow> same_instance st st'"
  by (auto simp: check_resource_status_def same_instance_def)

lemma same_instance_details:
  "check_details w rt ms rds l st = (r, l', st') \<Longrightarrow> same_instance st st'"
proof (induction rds arbitrary: l st)
  case Nil
  then show ?case by (simp add: same_instance_def)
next
  case (Cons rd rds)
  obtain b m st1 where c: "check_resource_status w (rd_type rd) (rd_name rd) (rd_namespace rd) st
      = ((b, m), st1)"
    by (metis surj_pair)
  then have s1: "same_instance st st1"
    by (rule same_instance_status)
  let ?cur = "rd_name rd @ '': '' @ m"
  consider (ready) "b" | (same) "\<not> b" "?cur = l" | (new) "\<not> b" "?cur \<noteq> l"
    by blast
  then show ?case
  proof cases
    case ready
    with Cons.prems c s1 show ?thesis
      by (auto simp: same_instance_def emit_def store_success_pattern_def)
  next
    case same
    with Cons.prems c have "check_details w rt ms rds l st1 = (r, l', st')"
      by (simp add: Let_def)
    then have "same_instance st1 st'"
      by (rule Cons.IH)
    with s1 show ?thesis
      by (rule same_instance_trans)
  next
    case new
    with Cons.prems c
    have "check_details w rt ms rds ?cur (emit (StatusLine ?cur) st1) = (r, l', st')"
      by (simp add: Let_def)
    then have "same_instance (emit (StatusLine ?cur) st1) st'"
      by (rule Cons.IH)
    with s1 show ?thesis
      by (simp add: same_instance_def emit_def)
  qed
qed

lemma same_instance_loop:
  "monitor_loop w rt ms T rds l st = (r, st') \<Longrightarrow> same_instance st st'"
proof (induction w rt ms T rds l st rule: monitor_loop.induct)
  case (1 w rt ms T rds l st)
  show ?case
  proof (cases "now st - ms < T")
    case False
    with "1.prems" show ?thesis
      by (simp add: monitor_loop.simps same_instance_def)
  next
    case True
    obtain b l1 st1 where c: "check_details w rt ms rds l st = (b, l1, st1)"
      by (metis surj_pair)
    then have s1: "same_instance st st1"
      by (rule same_instance_details)
    show ?thesis
    proof (cases b)
      case True
      with \<open>now st - ms < T\<close> c "1.prems" s1 show ?thesis
        by (simp add: monitor_loop.simps)
    next
      case False
      let ?st2 = "(if now st - ms > 120 \<and> (now st - ms) mod 60 = 0
                   then emit (StillProvisioning (now st - ms)) st1 else st1) \<lparr>now := now st1 + 30\<rparr>"
      from False \<open>now st - ms < T\<close> c "1.prems"
      have "monitor_loop w rt ms T rds l1 ?st2 = (r, st')"
        by (simp add: monitor_loop.simps [of w rt ms T rds l st])
      with "1.IH" [OF True c [symmetric] refl False] have "same_instance ?st2 st'"
        by simp
      with s1 show ?thesis
        by (simp add: same_instance_def emit_def)
    qed
  qed
qed

lemma same_instance_get_details:
  "get_resource_details w f st = (rds, st') \<Longrightarrow> same_instance st st'"
  by (auto simp: get_resource_details_def same_instance_def emit_def split: sum.splits)

lemma same_instance_monitor:
  assumes "monitor_with_memory_updates w f st = (r, st')"
  shows "same_instance st st'"
proof -
  let ?rt = "replace_yaml f"
  let ?T = "if ?rt = ''cluster'' then 1800 else if ?rt = ''extension'' then 600 else (300::nat)"
  let ?st3 = "emit (MemoryQuery (''aso '' @ ?rt @ '' provisioning time'')) (emit (Monitoring f) st)"
  obtain rds st4 where g: "get_resource_details w f ?st3 = (rds, st4)"
    by (metis surj_pair)
  then have "same_instance ?st3 st4"
    by (rule same_instance_get_details)
  then have s4: "same_instance st st4"
    by (simp add: same_instance_def emit_def)
  show ?thesis
  proof (cases "rds = []")
    case True
    with assms g have "st' = emit (NoDetails f) st4"
      by (simp add: monitor_with_memory_updates_def query_memory_before_action_def Let_def)
    with s4 show ?thesis
      by (simp add: same_instance_def emit_def)
  next
    case False
    obtain b st5 where m: "monitor_loop w ?rt (now ?st3) ?T rds [] st4 = (b, st5)"
      by (metis surj_pair)
    then have "same_instance st4 st5"
      by (rule same_instance_loop)
    with s4 have s5: "same_instance st st5"
      by (rule same_instance_trans)
    from assms g m False
    have "st' = st5 \<or> st' = store_issue_immediately (?rt @ ''-timeout'') (emit (NotReadyWithin ?rt ?T) st5)"
      by (cases b) (simp_all add: monitor_with_memory_updates_def query_memory_before_action_def Let_def)
    with s5 show ?thesis
      by (auto simp: same_instance_def emit_def store_issue_immediately_def)
  qed
qed


lemma deploy_effect:
  "deploy_resource_with_memory w f st = (b, st') \<Longrightarrow>
     b = apply_succeeds w (stack_dir st) (applies st) f \<and>
     stack_dir st' = stack_dir st \<and> resource_order st' = resource_order st \<and>
     deployment_results st' = deployment_results st \<and> applies st' = applies st + 1"
  by (auto simp: deploy_resource_with_memory_def query_memory_before_action_def Let_def
      emit_def store_success_pattern_def store_issue_immediately_def apply_succeeds_def
      split: if_splits)

lemma run_phase_results:
  "\<exists>m. deployment_results (run_phase w f st) = deployment_results st @
        [\<lparr> resource = f, deployed = apply_succeeds w (stack_dir st) (applies st) f,
           monitored = m \<and> apply_succeeds w (stack_dir st) (applies st) f \<rparr>]"
  and run_phase_stack_dir: "stack_dir (run_phase w f st) = stack_dir st"
  and run_phase_order: "resource_order (run_phase w f st) = resource_order st"
  and run_phase_applies: "applies (run_phase w f st) = applies st + 1"
proof -
  let ?st0 = "emit (Phase f) st"
  obtain b st1 where d: "deploy_resource_with_memory w f ?st0 = (b, st1)"
    by (metis surj_pair)
  from deploy_effect [OF d]
  have b: "b = apply_succeeds w (stack_dir st) (applies st) f"
    and fr: "stack_dir st1 = stack_dir st" "resource_order st1 = resource_order st"
      "deployment_results st1 = deployment_results st" "applies st1 = applies st + 1"
    by (simp_all add: emit_def)
  obtain m st2 where mo: "(if f \<in> set [''cluster.yaml'', ''extension.yaml'']
      then monitor_with_memory_updates w f st1
      else (True, emit (NoMonitoringNeeded f) st1)) = (m, st2)"
    by (metis surj_pair)
  have "same_instance st1 st2"
  proof (cases "f \<in> set [''cluster.yaml'', ''extension.yaml'']")
    case True
    with mo have "monitor_with_memory_updates w f st1 = (m, st2)"
      by (simp only: if_True)
    then show ?thesis
      by (rule same_instance_monitor)
  next
    case False
    with mo have "st2 = emit (NoMonitoringNeeded f) st1"
      by (simp only: if_False prod.inject)
    then show ?thesis
      by (simp add: same_instance_emit)
  qed
  with fr have fr2: "stack_dir st2 = stack_dir st" "resource_order st2 = resource_order st"
      "deployment_results st2 = deployment_results st" "applies st2 = applies st + 1"
    by (simp_all add: same_instance_def)
  have r: "run_phase w f st =
      (if b then st2\<lparr>deployment_results := deployment_results st2 @
                      [\<lparr> resource = f, deployed = b, monitored = m \<rparr>]\<rparr>
       else emit (FailedCheckMemory f)
              (st1\<lparr>deployment_results := deployment_results st1 @
                 [\<lparr> resource = f, deployed = False, monitored = False \<rparr>]\<rparr>))"
    unfolding run_phase_def d prod.case mo ..
  show "\<exists>m. deployment_results (run_phase w f st) = deployment_results st @
        [\<lparr> resource = f, deployed = apply_succeeds w (stack_dir st) (applies st) f,
           monitored = m \<and> apply_succeeds w (stack_dir st) (applies st) f \<rparr>]"
    using r b fr fr2 by (cases b) (auto simp: emit_def)
  show "stack_dir (run_phase w f st) = stack_dir st"
    using r fr fr2 by (simp add: emit_def)
  show "resource_order (run_phase w f st) = resource_order st"
    using r fr fr2 by (simp add: emit_def)
  show "applies (run_phase w f st) = applies st + 1"
    using r fr fr2 by (simp add: emit_def)
qed

lemma run_phases_order: "resource_order (run_phases w fs st) = resource_order st"
  by (induction fs arbitrary: st) (simp_all add: run_phase_order)

lemma run_phases_effect:
  "\<exists>rs. deployment_results (run_phases w fs st) = deployment_results st @ rs \<and>
     length rs = length fs \<and>
     (\<forall>i<length fs. resource (rs ! i) = fs ! i \<and>
        deployed (rs ! i) = apply_succeeds w (stack_dir st) (applies st + i) (fs ! i) \<and>
        (\<not> deployed (rs ! i) \<longrightarrow> \<not> monitored (rs ! i)))"
proof (induction fs arbitrary: st)
  case Nil
  show ?case by simp
next
  case (Cons f fs)
  let ?st1 = "run_phase w f st"
  from run_phase_results [of w f st] obtain m where
    h: "deployment_results ?st1 = deployment_results st @
        [\<lparr> resource = f, deployed = apply_succeeds w (stack_dir st) (applies st) f,
           monitored = m \<and> apply_succeeds w (stack_dir st) (applies st) f \<rparr>]"
    by blast
  let ?r = "\<lparr> resource = f, deployed = apply_succeeds w (stack_dir st) (applies st) f,
           monitored = m \<and> apply_succeeds w (stack_dir st) (applies st) f \<rparr>"
  from Cons.IH [of ?st1] obtain rs where
    t: "deployment_results (run_phases w fs ?st1) = deployment_results ?st1 @ rs"
      "length rs = length fs"
      "\<forall>i<length fs. resource (rs ! i) = fs ! i \<and>
         deployed (rs ! i) = apply_succeeds w (stack_dir ?st1) (applies ?st1 + i) (fs ! i) \<and>
         (\<not> deployed (rs ! i) \<longrightarrow> \<not> monitored (rs ! i))"
    by blast
  have "\<forall>i<length (f # fs). resource ((?r # rs) ! i) = (f # fs) ! i \<and>
      deployed ((?r # rs) ! i) = apply_succeeds w (stack_dir st) (applies st + i) ((f # fs) ! i) \<and>
      (\<not> deployed ((?r # rs) ! i) \<longrightarrow> \<not> monitored ((?r # rs) ! i))"
  proof (intro allI impI)
    fix i assume "i < length (f # fs)"
    then show "resource ((?r # rs) ! i) = (f # fs) ! i \<and>
      deployed ((?r # rs) ! i) = apply_succeeds w (stack_dir st) (applies st + i) ((f # fs) ! i) \<and>
      (\<not> deployed ((?r # rs) ! i) \<longrightarrow> \<not> monitored ((?r # rs) ! i))"
      using t(3) run_phase_stack_dir [of w f st] run_phase_applies [of w f st]
      by (cases i) simp_all
  qed
  moreover have "deployment_results (run_phases w (f # fs) st) = deployment_results st @ (?r # rs)"
    using t(1) h by simp
  moreover have "length (?r # rs) = length (f # fs)"
    using t(2) by simp
  ultimately show ?case
    by blast
qed

lemma run_unfold:
  "run_memory_guided_deployment w st =
     (let st2 = run_phases w (resource_order st)
                  (emit (MemoryQuery (''aso '' @ cluster_name st @ '' deployment'')) (emit Banner st))
      in (length (filter deployed (deployment_results st2)) = length (resource_order st),
          store_deployment_summary st2))"
  by (simp add: run_memory_guided_deployment_def query_memory_before_action_def Let_def
      store_deployment_summary_def emit_def run_phases_order)

lemma run_effect:
  "\<exists>rs. deployment_results (snd (run_memory_guided_deployment w st)) = deployment_results st @ rs \<and>
     fst (run_memory_guided_deployment w st) =
       (length (filter deployed (deployment_results st @ rs)) = length (resource_order st)) \<and>
     length rs = length (resource_order st) \<and>
     (\<forall>i<length (resource_order st). resource (rs ! i) = resource_order st ! i \<and>
        deployed (rs ! i) = apply_succeeds w (stack_dir st) (applies st + i) (resource_order st ! i) \<and>
        (\<not> deployed (rs ! i) \<longrightarrow> \<not> monitored (rs ! i)))"
proof -
  let ?st1 = "emit (MemoryQuery (''aso '' @ cluster_name st @ '' deployment'')) (emit Banner st)"
  from run_phases_effect [of w "resource_order st" ?st1]
  obtain rs where
    t: "deployment_results (run_phases w (resource_order st) ?st1) = deployment_results ?st1 @ rs"
      "length rs = length (resource_order st)"
      "\<forall>i<length (resource_order st). resource (rs ! i) = resource_order st ! i \<and>
         deployed (rs ! i) = apply_succeeds w (stack_dir ?st1) (applies ?st1 + i) (resource_order st ! i) \<and>
         (\<not> deployed (rs ! i) \<longrightarrow> \<not> monitored (rs ! i))"
    by blast
  have e: "deployment_results ?st1 = deployment_results st" "stack_dir ?st1 = stack_dir st"
    "applies ?st1 = applies st"
    by (simp_all add: emit_def)
  have "deployment_results (snd (run_memory_guided_deployment w st)) = deployment_results st @ rs"
    using t(1) e by (simp add: run_unfold Let_def store_deployment_summary_def emit_def)
  moreover have "fst (run_memory_guided_deployment w st) =
       (length (filter deployed (deployment_results st @ rs)) = length (resource_order st))"
    using t(1) e by (simp add: run_unfold Let_def)
  ultimately show ?thesis
    using t(2,3) e by auto
qed


lemma all_pass_iff: "length (filter P xs) = length xs \<longleftrightarrow> (\<forall>x\<in>set xs. P x)"
proof (induction xs)
  case Nil
  show ?case by simp
next
  case (Cons x xs)
  have "length (filter P xs) \<noteq> Suc (length xs)"
    by (metis length_filter_le Suc_n_not_le_n)
  with Cons show ?case
    by auto
qed

subsection \<open>The result log\<close>

text \<open>
  Claim C1. A run appends to the result log exactly one entry for each element of
  \<open>resource_order\<close>, in the order of that list, whatever the applies return: the log
  after the run is the log before it followed by \<open>produced\<close>, which has the length of
  \<open>resource_order\<close> and names its elements in order. The entry at position \<open>i\<close> has
  \<open>deployed\<close> equal to the outcome of the \<open>i\<close>-th apply, and when that apply fails the
  entry is \<open>{deployed: False, monitored: False}\<close>; the later resources are applied all the
  same.
\<close>

theorem run_one_result_per_resource:
  "deployment_results (snd (run_memory_guided_deployment w st)) =
     deployment_results st @ produced w st \<and>
   length (produced w st) = length (resource_order st) \<and>
   map resource (produced w st) = resource_order st \<and>
   (\<forall>i<length (resource_order st).
      deployed (produced w st ! i) =
        apply_succeeds w (stack_dir st) (applies st + i) (resource_order st ! i) \<and>
      (\<not> apply_succeeds w (stack_dir st) (applies st + i) (resource_order st ! i) \<longrightarrow>
         produced w st ! i =
           \<lparr> resource = resource_order st ! i, deployed = False, monitored = False \<rparr>))"
proof -
  from run_effect [of w st] obtain rs where
    r: "deployment_results (snd (run_memory_guided_deployment w st)) = deployment_results st @ rs"
      "length rs = length (resource_order st)"
      "\<forall>i<length (resource_order st). resource (rs ! i) = resource_order st ! i \<and>
         deployed (rs ! i) =
           apply_succeeds w (stack_dir st) (applies st + i) (resource_order st ! i) \<and>
         (\<not> deployed (rs ! i) \<longrightarrow> \<not> monitored (rs ! i))"
    by blast
  from r(1) have p: "produced w st = rs"
    by (simp add: produced_def)
  have "map resource rs = resource_order st"
    using r(2,3) by (simp add: list_eq_iff_nth_eq)
  moreover have "\<forall>i<length (resource_order st).
      deployed (rs ! i) =
        apply_succeeds w (stack_dir st) (applies st + i) (resource_order st ! i) \<and>
      (\<not> apply_succeeds w (stack_dir st) (applies st + i) (resource_order st ! i) \<longrightarrow>
         rs ! i = \<lparr> resource = resource_order st ! i, deployed = False, monitored = False \<rparr>)"
  proof (intro allI impI)
    fix i assume "i < length (resource_order st)"
    with r(3) have "resource (rs ! i) = resource_order st ! i"
      and "deployed (rs ! i) =
        apply_succeeds w (stack_dir st) (applies st + i) (resource_order st ! i)"
      and "\<not> deployed (rs ! i) \<longrightarrow> \<not> monitored (rs ! i)"
      by blast+
    then show "deployed (rs ! i) =
        apply_succeeds w (stack_dir st) (applies st + i) (resource_order st ! i) \<and>
      (\<not> apply_succeeds w (stack_dir st) (applies st + i) (resource_order st ! i) \<longrightarrow>
         rs ! i = \<lparr> resource = resource_order st ! i, deployed = False, monitored = False \<rparr>)"
      by (cases "rs ! i") auto
  qed
  ultimately show ?thesis
    using r(1,2) p by simp
qed

text \<open>
  The seven resources of the script, where the apply of the fifth (\<open>federated.yaml\<close>)
  is rejected and every other apply is accepted.
\<close>

definition fifth_fails :: world where
  "fifth_fails =
     \<lparr> apply_reply = (\<lambda>n path. \<lparr> returncode = (if n = 4 then 1 else 0), stdout = [],
                                     stderr = (if n = 4 then ''rejected'' else []) \<rparr>),
       get_reply = (\<lambda>n t name ns. GetFailed ''NotFound''),
       get_secs = (\<lambda>n. 1),
       yaml_docs = (\<lambda>path. Inl ''No such file or directory'') \<rparr>"

theorem run_one_result_per_resource_witness:
  "length (produced fifth_fails (init 0)) = 7 \<and>
   map resource (produced fifth_fails (init 0)) = resource_order (init 0) \<and>
   produced fifth_fails (init 0) ! 4 =
     \<lparr> resource = ''federated.yaml'', deployed = False, monitored = False \<rparr> \<and>
   deployed (produced fifth_fails (init 0) ! 0) \<and> deployed (produced fifth_fails (init 0) ! 1) \<and>
   deployed (produced fifth_fails (init 0) ! 2) \<and> deployed (produced fifth_fails (init 0) ! 3) \<and>
   deployed (produced fifth_fails (init 0) ! 5) \<and> deployed (produced fifth_fails (init 0) ! 6)"
proof -
  let ?p = "produced fifth_fails (init 0)"
  note t = run_one_result_per_resource [of fifth_fails "init 0"]
  have ok: "apply_succeeds fifth_fails (stack_dir (init 0)) (applies (init 0) + i) f \<longleftrightarrow> i \<noteq> 4"
    for i f
    by (simp add: apply_succeeds_def fifth_fails_def init_def)
  have n: "length (resource_order (init 0)) = 7"
    by (simp add: init_def)
  from t have all: "\<forall>i<7. deployed (?p ! i) = (i \<noteq> 4) \<and>
      (i = 4 \<longrightarrow> ?p ! i =
         \<lparr> resource = resource_order (init 0) ! i, deployed = False, monitored = False \<rparr>)"
    unfolding ok n by simp
  have four: "resource_order (init 0) ! 4 = ''federated.yaml''"
    by (simp add: init_def)
  have at: "deployed (?p ! i) = (i \<noteq> 4) \<and>
      (i = 4 \<longrightarrow> ?p ! i =
         \<lparr> resource = resource_order (init 0) ! i, deployed = False, monitored = False \<rparr>)"
    if "i < 7" for i
    using all that by blast
  from at [of 0] at [of 1] at [of 2] at [of 3] at [of 4] at [of 5] at [of 6] four
  have "deployed (?p ! 0)" "deployed (?p ! 1)" "deployed (?p ! 2)" "deployed (?p ! 3)"
    "deployed (?p ! 5)" "deployed (?p ! 6)"
    "?p ! 4 = \<lparr> resource = ''federated.yaml'', deployed = False, monitored = False \<rparr>"
    by simp_all
  moreover from t n have "length ?p = 7" "map resource ?p = resource_order (init 0)"
    by simp_all
  ultimately show ?thesis
    by blast
qed

section \<open>Readiness polling\<close>

subsection \<open>A poll that never sees the resource ready\<close>

text \<open>
  \<open>never_reports_ready\<close>: no status query, whenever and for whatever resource it is
  issued, is read as ready. \<open>ticks budget period\<close> is the budget divided by the period,
  rounded up.
\<close>

definition never_reports_ready :: "world \<Rightarrow> bool" where
  "never_reports_ready w \<longleftrightarrow> (\<forall>n t name ns. \<not> fst (status_from (get_reply w n t name ns)))"

definition ticks :: "nat \<Rightarrow> nat \<Rightarrow> nat" where
  "ticks budget period = (budget + period - 1) div period"

text \<open>
  A control plane that accepts every apply and whose status queries, each taking \<open>d\<close>
  seconds, always answer with a \<open>Ready\<close> condition of status \<open>False\<close>; every resource file
  holds the one document \<open>doc_cluster\<close>.
\<close>

definition doc_cluster :: yaml_doc where
  "doc_cluster = \<lparr> kind = Some ''ManagedCluster'',
      metadata = Some \<lparr> md_name = Some ''aks'', md_namespace = Some ''azure-system'' \<rparr> \<rparr>"

definition reconciling :: "nat \<Rightarrow> world" where
  "reconciling d =
     \<lparr> apply_reply = (\<lambda>n path. \<lparr> returncode = 0, stdout = ''configured'', stderr = [] \<rparr>),
       get_reply = (\<lambda>n t name ns.
          GetOk [\<lparr> ctype = Some ''Ready'', cstatus = Some ''False'',
                   cmessage = Some ''Reconciling'' \<rparr>]),
       get_secs = (\<lambda>n. d),
       yaml_docs = (\<lambda>path. Inr [Some doc_cluster]) \<rparr>"

definition two_resources :: deployer where
  "two_resources = (init 0)\<lparr>resource_order := [''identity.yaml'', ''extension.yaml'']\<rparr>"

lemma ticks_zero: "0 < p \<Longrightarrow> ticks 0 p = 0"
  by (simp add: ticks_def)

lemma ticks_step:
  assumes "0 < r" "0 < p"
  shows "ticks r p = Suc (ticks (r - p) p)"
proof (cases "p \<le> r")
  case True
  then have "r + p - 1 = (r - p + p - 1) + p"
    using assms by simp
  then have "(r + p - 1) div p = (r - p + p - 1) div p + 1"
    using assms by (metis div_add_self2 less_numeral_extra(3))
  then show ?thesis
    by (simp add: ticks_def)
next
  case False
  then have "(r + p - 1) div p = 1"
    using assms by (simp add: div_nat_eqI)
  with False assms show ?thesis
    by (simp add: ticks_def)
qed

lemma check_details_never_ready:
  assumes "never_reports_ready w" "\<forall>n. get_secs w n = d"
  shows "\<exists>l' st'. check_details w rt ms rds l st = (False, l', st') \<and>
     gets st' = gets st + length rds \<and> now st' = now st + d * length rds"
proof (induction rds arbitrary: l st)
  case Nil
  show ?case by simp
next
  case (Cons rd rds)
  let ?r = "status_from (get_reply w (gets st) (rd_type rd) (rd_name rd) (rd_namespace rd))"
  let ?st1 = "st\<lparr>gets := gets st + 1, now := now st + get_secs w (gets st)\<rparr>"
  let ?cur = "rd_name rd @ '': '' @ snd ?r"
  have nr: "\<not> fst ?r"
    using assms(1) by (simp add: never_reports_ready_def)
  have c: "check_resource_status w (rd_type rd) (rd_name rd) (rd_namespace rd) st
      = ((False, snd ?r), ?st1)"
    using nr by (simp add: check_resource_status_def prod_eq_iff)
  have s: "gets ?st1 = gets st + 1" "now ?st1 = now st + d"
    using assms(2) by simp_all
  show ?case
  proof (cases "?cur = l")
    case True
    then have "check_details w rt ms (rd # rds) l st = check_details w rt ms rds l ?st1"
      using c by (simp add: Let_def)
    with Cons.IH [of l ?st1] s show ?thesis
      by auto
  next
    case False
    then have "check_details w rt ms (rd # rds) l st =
        check_details w rt ms rds ?cur (emit (StatusLine ?cur) ?st1)"
      using c by (simp add: Let_def)
    with Cons.IH [of ?cur "emit (StatusLine ?cur) ?st1"] s show ?thesis
      by (auto simp: emit_def)
  qed
qed

lemma monitor_loop_never_ready:
  "never_reports_ready w \<Longrightarrow> \<forall>n. get_secs w n = d \<Longrightarrow> ms \<le> now st \<Longrightarrow>
     \<exists>st'. monitor_loop w rt ms T rds l st = (False, st') \<and>
       gets st' = gets st + length rds * ticks (ms + T - now st) (30 + d * length rds) \<and>
       now st' = now st + (30 + d * length rds) * ticks (ms + T - now st) (30 + d * length rds)"
proof (induction w rt ms T rds l st rule: monitor_loop.induct)
  case (1 w rt ms T rds l st)
  let ?p = "30 + d * length rds"
  note assms = "1.prems"(1,2)
  show ?case
  proof (cases "now st - ms < T")
    case False
    with "1.prems"(3) have "ms + T - now st = 0"
      by simp
    with False show ?thesis
      by (simp add: monitor_loop.simps ticks_zero)
  next
    case True
    from check_details_never_ready [OF assms, of rt ms rds l st]
    obtain l1 st1 where c: "check_details w rt ms rds l st = (False, l1, st1)"
      and g: "gets st1 = gets st + length rds" and n: "now st1 = now st + d * length rds"
      by blast
    let ?st2 = "(if now st - ms > 120 \<and> (now st - ms) mod 60 = 0
                 then emit (StillProvisioning (now st - ms)) st1 else st1) \<lparr>now := now st1 + 30\<rparr>"
    have s2: "gets ?st2 = gets st + length rds" "now ?st2 = now st + ?p"
      using g n by (simp_all add: emit_def)
    have u: "monitor_loop w rt ms T rds l st = monitor_loop w rt ms T rds l1 ?st2"
      using True c by (simp add: monitor_loop.simps [of w rt ms T rds l st])
    have "ms \<le> now ?st2"
      using s2 "1.prems"(3) by simp
    from "1.IH" [OF True c [symmetric] refl _ assms this]
    obtain st' where r: "monitor_loop w rt ms T rds l1 ?st2 = (False, st')"
      and g': "gets st' = gets ?st2 + length rds * ticks (ms + T - now ?st2) ?p"
      and n': "now st' = now ?st2 + ?p * ticks (ms + T - now ?st2) ?p"
      by auto
    have "0 < ms + T - now st"
      using True "1.prems"(3) by simp
    then have t: "ticks (ms + T - now st) ?p = Suc (ticks (ms + T - now st - ?p) ?p)"
      by (rule ticks_step) simp
    have "ms + T - now ?st2 = ms + T - now st - ?p"
      using s2 by simp
    with g' n' s2 t have "gets st' = gets st + length rds * ticks (ms + T - now st) ?p"
      and "now st' = now st + ?p * ticks (ms + T - now st) ?p"
      by simp_all
    with u r show ?thesis
      by simp
  qed
qed


lemma ticks_ceiling: "ticks T 30 = nat \<lceil>real T / 30\<rceil>"
proof -
  have "\<lceil>real T / 30\<rceil> = \<lceil>(of_int (int T) :: real) / of_int 30\<rceil>"
    by simp
  also have "\<dots> = - (- int T div 30)"
    by (rule ceiling_divide_eq_div)
  finally have "nat \<lceil>real T / 30\<rceil> = nat (- (- int T div 30))"
    by simp
  also have "\<dots> = (T + 29) div 30"
    by linarith
  finally show ?thesis
    by (simp add: ticks_def)
qed

lemma get_resource_details_emit:
  "fst (get_resource_details w f (emit e st)) = fst (get_resource_details w f st)"
  by (simp add: get_resource_details_def emit_def split: sum.splits)

lemma get_resource_details_state:
  "fst (get_resource_details w f st) \<noteq> [] \<Longrightarrow> snd (get_resource_details w f st) = st"
  by (simp add: get_resource_details_def split: sum.splits)

lemma monitor_never_ready:
  assumes "never_reports_ready w" "\<forall>n. get_secs w n = d"
    and "fst (get_resource_details w f st) = rds" "rds \<noteq> []"
    and "T = (if replace_yaml f = ''cluster'' then 1800
              else if replace_yaml f = ''extension'' then 600 else 300)"
  shows "\<exists>st'. monitor_with_memory_updates w f st = (False, st') \<and>
       gets st' = gets st + length rds * ticks T (30 + d * length rds) \<and>
       now st' = now st + (30 + d * length rds) * ticks T (30 + d * length rds)"
proof -
  let ?rt = "replace_yaml f"
  let ?st3 = "emit (MemoryQuery (''aso '' @ ?rt @ '' provisioning time'')) (emit (Monitoring f) st)"
  have "fst (get_resource_details w f ?st3) = rds"
    using assms(3) by (simp add: get_resource_details_emit)
  moreover from this assms(4) have "snd (get_resource_details w f ?st3) = ?st3"
    by (simp add: get_resource_details_state)
  ultimately have g: "get_resource_details w f ?st3 = (rds, ?st3)"
    by (simp add: prod_eq_iff)
  from monitor_loop_never_ready [OF assms(1,2), of "now ?st3" ?st3 ?rt T rds "[]"]
  obtain st5 where m: "monitor_loop w ?rt (now ?st3) T rds [] ?st3 = (False, st5)"
    and g5: "gets st5 = gets ?st3 + length rds * ticks T (30 + d * length rds)"
    and n5: "now st5 = now ?st3 + (30 + d * length rds) * ticks T (30 + d * length rds)"
    by auto
  let ?st' = "store_issue_immediately (?rt @ ''-timeout'') (emit (NotReadyWithin ?rt T) st5)"
  have "monitor_with_memory_updates w f st = (False, ?st')"
    using g m assms(4,5)
    by (simp add: monitor_with_memory_updates_def query_memory_before_action_def Let_def)
  moreover have "gets ?st' = gets st + length rds * ticks T (30 + d * length rds)"
    using g5 by (simp add: store_issue_immediately_def emit_def)
  moreover have "now ?st' = now st + (30 + d * length rds) * ticks T (30 + d * length rds)"
    using n5 by (simp add: store_issue_immediately_def emit_def)
  ultimately show ?thesis
    by blast
qed

lemma reconciling_never_ready: "never_reports_ready (reconciling d)"
  by (simp add: never_reports_ready_def reconciling_def status_from_def)

lemma reconciling_secs: "\<forall>n. get_secs (reconciling d) n = d"
  by (simp add: reconciling_def)

lemma lower_kind: "lower ''ManagedCluster'' = ''managedcluster''"
  by code_simp

lemma reconciling_details:
  "fst (get_resource_details (reconciling d) f (init t)) =
     [\<lparr> rd_type = ''managedcluster'', rd_name = ''aks'', rd_namespace = ''azure-system'' \<rparr>]"
  by (simp add: get_resource_details_def reconciling_def doc_cluster_def lower_kind)

text \<open>
  Claim C2, as the code has it. When no status query is read as ready and the queries take
  no time, so that the passes through the loop are exactly 30 seconds apart, the loop of
  the monitor with budget \<open>T\<close> makes \<open>ceil(T/30)\<close> passes: it issues that many status
  queries for each sub-resource, sleeps 30 seconds that many times, and ends with
  \<open>False\<close>. For \<open>cluster.yaml\<close> (budget 1800) with one sub-resource the monitor issues
  exactly 60 status queries and returns \<open>False\<close>. The value returned is the boolean
  alone: the last status line is printed, not returned.
\<close>

theorem poll_never_ready:
  assumes "never_reports_ready w" and "\<forall>n. get_secs w n = 0"
  shows "(\<exists>st'. monitor_loop w rt (now st) T rds l st = (False, st') \<and>
            gets st' = gets st + length rds * nat \<lceil>real T / 30\<rceil> \<and>
            now st' = now st + 30 * nat \<lceil>real T / 30\<rceil>) \<and>
         (length (fst (get_resource_details w ''cluster.yaml'' st)) = 1 \<longrightarrow>
            (\<exists>st'. monitor_with_memory_updates w ''cluster.yaml'' st = (False, st') \<and>
               gets st' = gets st + 60 \<and> now st' = now st + 1800))"
proof
  from monitor_loop_never_ready [OF assms, of "now st" st rt T rds l]
  show "\<exists>st'. monitor_loop w rt (now st) T rds l st = (False, st') \<and>
            gets st' = gets st + length rds * nat \<lceil>real T / 30\<rceil> \<and>
            now st' = now st + 30 * nat \<lceil>real T / 30\<rceil>"
    by (simp add: ticks_ceiling)
next
  show "length (fst (get_resource_details w ''cluster.yaml'' st)) = 1 \<longrightarrow>
            (\<exists>st'. monitor_with_memory_updates w ''cluster.yaml'' st = (False, st') \<and>
               gets st' = gets st + 60 \<and> now st' = now st + 1800)"
  proof
    let ?rds = "fst (get_resource_details w ''cluster.yaml'' st)"
    assume one: "length ?rds = 1"
    then have ne: "?rds \<noteq> []"
      by auto
    have T: "(1800::nat) = (if replace_yaml ''cluster.yaml'' = ''cluster'' then 1800
              else if replace_yaml ''cluster.yaml'' = ''extension'' then 600 else 300)"
      by simp
    have "ticks 1800 30 = 60"
      by (simp add: ticks_def)
    with monitor_never_ready [OF assms refl ne T] one
    show "\<exists>st'. monitor_with_memory_updates w ''cluster.yaml'' st = (False, st') \<and>
               gets st' = gets st + 60 \<and> now st' = now st + 1800"
      by simp
  qed
qed

theorem poll_never_ready_witness:
  "never_reports_ready (reconciling 0) \<and> (\<forall>n. get_secs (reconciling 0) n = 0) \<and>
   length (fst (get_resource_details (reconciling 0) ''cluster.yaml'' (init 0))) = 1 \<and>
   fst (monitor_with_memory_updates (reconciling 0) ''cluster.yaml'' (init 0)) = False \<and>
   gets (snd (monitor_with_memory_updates (reconciling 0) ''cluster.yaml'' (init 0))) = 60 \<and>
   fst (monitor_loop (reconciling 0) ''extension'' 0 600
          [\<lparr> rd_type = ''extension'', rd_name = ''flux'', rd_namespace = ''azure-system'' \<rparr>]
          [] (init 0)) = False \<and>
   gets (snd (monitor_loop (reconciling 0) ''extension'' 0 600
          [\<lparr> rd_type = ''extension'', rd_name = ''flux'', rd_namespace = ''azure-system'' \<rparr>]
          [] (init 0))) = 20"
proof -
  note h = reconciling_never_ready [of 0] reconciling_secs [of 0]
  let ?rd = "\<lparr> rd_type = ''extension'', rd_name = ''flux'', rd_namespace = ''azure-system'' \<rparr>"
  note t = poll_never_ready [OF h, of "''extension''" "init 0" 600 "[?rd]" "[]"]
  have one: "length (fst (get_resource_details (reconciling 0) ''cluster.yaml'' (init 0))) = 1"
    by (simp add: reconciling_details)
  have z: "now (init 0) = 0" "gets (init 0) = 0"
    by (simp_all add: init_def)
  have c: "nat \<lceil>real 600 / 30\<rceil> = 20"
    by simp
  from t one z c have "fst (monitor_with_memory_updates (reconciling 0) ''cluster.yaml'' (init 0)) = False"
    and "gets (snd (monitor_with_memory_updates (reconciling 0) ''cluster.yaml'' (init 0))) = 60"
    and "fst (monitor_loop (reconciling 0) ''extension'' 0 600 [?rd] [] (init 0)) = False"
    and "gets (snd (monitor_loop (reconciling 0) ''extension'' 0 600 [?rd] [] (init 0))) = 20"
    by auto
  with h one show ?thesis
    by blast
qed

text \<open>
  The number of passes is counted on the wall clock: when each status query takes two
  seconds, a pass takes 32 seconds and the monitor of \<open>cluster.yaml\<close> gives up after 57
  status queries, not 60.
\<close>

theorem poll_slow_queries_counterexample:
  "fst (monitor_with_memory_updates (reconciling 2) ''cluster.yaml'' (init 0)) = False \<and>
   gets (snd (monitor_with_memory_updates (reconciling 2) ''cluster.yaml'' (init 0))) = 57 \<and>
   now (snd (monitor_with_memory_updates (reconciling 2) ''cluster.yaml'' (init 0))) = 1824 \<and>
   nat \<lceil>real 1800 / 30\<rceil> = 60"
proof -
  have T: "(1800::nat) = (if replace_yaml ''cluster.yaml'' = ''cluster'' then 1800
            else if replace_yaml ''cluster.yaml'' = ''extension'' then 600 else 300)"
    by simp
  have ne: "[\<lparr> rd_type = ''managedcluster'', rd_name = ''aks'', rd_namespace = ''azure-system'' \<rparr>] \<noteq> []"
    by simp
  have k: "ticks 1800 32 = 57"
    by (simp add: ticks_def)
  from monitor_never_ready [OF reconciling_never_ready reconciling_secs reconciling_details ne T,
      of 2 0] k
  show ?thesis
    by (auto simp: init_def)
qed

subsection \<open>The verdict of a run\<close>

text \<open>
  Claim C9. On an instance whose result log is empty, as \<open>main\<close> creates it, the run
  returns \<open>True\<close> exactly when every apply returned code 0. What the monitor returns
  does not enter the verdict.
\<close>

theorem run_success_iff_all_applied:
  assumes "deployment_results st = []"
  shows "fst (run_memory_guided_deployment w st) \<longleftrightarrow>
     (\<forall>i<length (resource_order st).
        apply_succeeds w (stack_dir st) (applies st + i) (resource_order st ! i))"
proof -
  from run_effect [of w st] obtain rs where
    r0: "fst (run_memory_guided_deployment w st) =
         (length (filter deployed (deployment_results st @ rs)) = length (resource_order st))"
    and r:
      "length rs = length (resource_order st)"
      "\<forall>i<length (resource_order st). resource (rs ! i) = resource_order st ! i \<and>
         deployed (rs ! i) =
           apply_succeeds w (stack_dir st) (applies st + i) (resource_order st ! i) \<and>
         (\<not> deployed (rs ! i) \<longrightarrow> \<not> monitored (rs ! i))"
    by blast
  from r0 r(1) assms
  have "fst (run_memory_guided_deployment w st) \<longleftrightarrow> length (filter deployed rs) = length rs"
    by simp
  also have "\<dots> \<longleftrightarrow> (\<forall>x\<in>set rs. deployed x)"
    by (rule all_pass_iff)
  also have "\<dots> \<longleftrightarrow> (\<forall>i<length rs. deployed (rs ! i))"
    by (simp add: all_set_conv_all_nth)
  also have "\<dots> \<longleftrightarrow> (\<forall>i<length (resource_order st).
        apply_succeeds w (stack_dir st) (applies st + i) (resource_order st ! i))"
    using r by auto
  finally show ?thesis .
qed

text \<open>
  Two resources, both applied; the monitor of \<open>extension.yaml\<close> runs out of time, its
  entry has \<open>monitored = False\<close>, and the run still returns \<open>True\<close>. With the seven
  resources of which the fifth is rejected, the run returns \<open>False\<close>.
\<close>

lemma never_ready_phases:
  "deployment_results (run_phases (reconciling 0) [''identity.yaml'', ''extension.yaml'']
     (emit (MemoryQuery (''aso '' @ cluster_name two_resources @ '' deployment''))
        (emit Banner two_resources))) =
     [\<lparr> resource = ''identity.yaml'', deployed = True, monitored = True \<rparr>,
      \<lparr> resource = ''extension.yaml'', deployed = True, monitored = False \<rparr>]"
  by code_simp

lemma never_ready_results:
  "deployment_results (snd (run_memory_guided_deployment (reconciling 0) two_resources)) =
     [\<lparr> resource = ''identity.yaml'', deployed = True, monitored = True \<rparr>,
      \<lparr> resource = ''extension.yaml'', deployed = True, monitored = False \<rparr>]"
  using never_ready_phases
  by (simp add: run_unfold Let_def two_resources_def init_def store_deployment_summary_def
      emit_def)

theorem run_success_iff_all_applied_witness:
  "deployment_results two_resources = [] \<and>
   fst (run_memory_guided_deployment (reconciling 0) two_resources) \<and>
   deployment_results (snd (run_memory_guided_deployment (reconciling 0) two_resources)) =
     [\<lparr> resource = ''identity.yaml'', deployed = True, monitored = True \<rparr>,
      \<lparr> resource = ''extension.yaml'', deployed = True, monitored = False \<rparr>] \<and>
   deployment_results (init 0) = [] \<and>
   \<not> fst (run_memory_guided_deployment fifth_fails (init 0))"
proof -
  have e: "deployment_results two_resources = []"
    by (simp add: two_resources_def init_def)
  have "apply_succeeds (reconciling 0) d n f" for d n f
    by (simp add: apply_succeeds_def reconciling_def)
  with run_success_iff_all_applied [OF e, of "reconciling 0"]
  have a: "fst (run_memory_guided_deployment (reconciling 0) two_resources)"
    by simp
  have e': "deployment_results (init 0) = []"
    by (simp add: init_def)
  have "4 < length (resource_order (init 0))"
    and "\<not> apply_succeeds fifth_fails (stack_dir (init 0)) (applies (init 0) + 4)
           (resource_order (init 0) ! 4)"
    by (simp_all add: init_def apply_succeeds_def fifth_fails_def)
  then have "\<not> (\<forall>i<length (resource_order (init 0)).
      apply_succeeds fifth_fails (stack_dir (init 0)) (applies (init 0) + i)
        (resource_order (init 0) ! i))"
    by blast
  with run_success_iff_all_applied [OF e', of fifth_fails]
  have b: "\<not> fst (run_memory_guided_deployment fifth_fails (init 0))"
    by simp
  from e a never_ready_results e' b show ?thesis
    by simp
qed

subsection \<open>A resource file without sub-resources\<close>

text \<open>
  Two control planes: one where no resource file can be read, so that
  \<open>get_resource_details\<close> yields nothing, and one where the file holds \<open>doc_cluster\<close> and
  the first status query already reports \<open>Ready\<close> with status \<open>True\<close>.
\<close>

definition unreadable_files :: world where
  "unreadable_files =
     \<lparr> apply_reply = (\<lambda>n path. \<lparr> returncode = 0, stdout = ''configured'', stderr = [] \<rparr>),
       get_reply = (\<lambda>n t name ns. GetFailed ''NotFound''),
       get_secs = (\<lambda>n. 1),
       yaml_docs = (\<lambda>path. Inl ''No such file or directory'') \<rparr>"

definition ready_at_once :: world where
  "ready_at_once =
     \<lparr> apply_reply = (\<lambda>n path. \<lparr> returncode = 0, stdout = ''configured'', stderr = [] \<rparr>),
       get_reply = (\<lambda>n t name ns.
          GetOk [\<lparr> ctype = Some ''Ready'', cstatus = Some ''True'',
                   cmessage = Some ''Succeeded'' \<rparr>]),
       get_secs = (\<lambda>n. 1),
       yaml_docs = (\<lambda>path. Inr [Some doc_cluster]) \<rparr>"

text \<open>
  Claim C3, as the code has it. When \<open>get_resource_details\<close> yields no sub-resource, the
  monitor returns \<open>True\<close> at once: it issues no status query, does not sleep, and its
  last output is the warning that the details could not be determined. The value
  returned is the bare boolean.
\<close>

theorem monitor_without_details:
  assumes "fst (get_resource_details w resource_file st) = []"
  shows "fst (monitor_with_memory_updates w resource_file st) = True \<and>
     gets (snd (monitor_with_memory_updates w resource_file st)) = gets st \<and>
     now (snd (monitor_with_memory_updates w resource_file st)) = now st \<and>
     last (out (snd (monitor_with_memory_updates w resource_file st))) = NoDetails resource_file"
proof -
  let ?rt = "replace_yaml resource_file"
  let ?st3 = "emit (MemoryQuery (''aso '' @ ?rt @ '' provisioning time''))
                (emit (Monitoring resource_file) st)"
  obtain rds st4 where g: "get_resource_details w resource_file ?st3 = (rds, st4)"
    by (metis surj_pair)
  then have "rds = fst (get_resource_details w resource_file ?st3)"
    by simp
  with assms have e: "rds = []"
    by (simp add: get_resource_details_emit)
  from g have "gets st4 = gets ?st3" "now st4 = now ?st3"
    by (auto simp: get_resource_details_def emit_def split: sum.splits)
  then have s4: "gets st4 = gets st" "now st4 = now st"
    by (simp_all add: emit_def)
  have "monitor_with_memory_updates w resource_file st = (True, emit (NoDetails resource_file) st4)"
    using g e by (simp add: monitor_with_memory_updates_def query_memory_before_action_def Let_def)
  with s4 show ?thesis
    by (simp add: emit_def)
qed

theorem monitor_without_details_witness:
  "fst (get_resource_details unreadable_files ''cluster.yaml'' (init 0)) = [] \<and>
   fst (monitor_with_memory_updates unreadable_files ''cluster.yaml'' (init 0)) = True \<and>
   gets (snd (monitor_with_memory_updates unreadable_files ''cluster.yaml'' (init 0))) = 0"
proof -
  have e: "fst (get_resource_details unreadable_files ''cluster.yaml'' (init 0)) = []"
    by (simp add: get_resource_details_def unreadable_files_def)
  from monitor_without_details [OF e] e show ?thesis
    by (simp add: init_def)
qed

text \<open>
  The caller cannot tell this fallback from a confirmed readiness: the monitor returns the
  same value for a file that cannot be read as for a resource whose status query
  reported \<open>Ready\<close>, and the run records the same result entry in both cases.
\<close>

theorem degraded_success_counterexample:
  "fst (get_resource_details unreadable_files ''cluster.yaml'' (init 0)) = [] \<and>
   fst (get_resource_details ready_at_once ''cluster.yaml'' (init 0)) =
     [\<lparr> rd_type = ''managedcluster'', rd_name = ''aks'', rd_namespace = ''azure-system'' \<rparr>] \<and>
   status_from (get_reply ready_at_once 0 ''managedcluster'' ''aks'' ''azure-system'') =
     (True, ''Succeeded'') \<and>
   fst (monitor_with_memory_updates unreadable_files ''cluster.yaml'' (init 0)) =
     fst (monitor_with_memory_updates ready_at_once ''cluster.yaml'' (init 0)) \<and>
   deployment_results (run_phase unreadable_files ''cluster.yaml'' (init 0)) =
     deployment_results (run_phase ready_at_once ''cluster.yaml'' (init 0))"
  by code_simp


subsection \<open>Several sub-resources\<close>

text \<open>
  \<open>reads_ready w n rd\<close>: the \<open>n\<close>-th status query, issued for \<open>rd\<close>, is read as ready.
  Below, three sub-resources and a control plane on which only the agent pool is ready.
\<close>

definition reads_ready :: "world \<Rightarrow> nat \<Rightarrow> resource_detail \<Rightarrow> bool" where
  "reads_ready w n rd \<longleftrightarrow>
     fst (status_from (get_reply w n (rd_type rd) (rd_name rd) (rd_namespace rd)))"

definition rd_cluster :: resource_detail where
  "rd_cluster = \<lparr> rd_type = ''managedcluster'', rd_name = ''aks'', rd_namespace = ''azure-system'' \<rparr>"

definition rd_pool :: resource_detail where
  "rd_pool = \<lparr> rd_type = ''managedclustersagentpool'', rd_name = ''pool1'',
      rd_namespace = ''azure-system'' \<rparr>"

definition rd_group :: resource_detail where
  "rd_group = \<lparr> rd_type = ''resourcegroup'', rd_name = ''rg'', rd_namespace = ''azure-system'' \<rparr>"

definition only_pool_ready :: world where
  "only_pool_ready =
     \<lparr> apply_reply = (\<lambda>n path. \<lparr> returncode = 0, stdout = ''configured'', stderr = [] \<rparr>),
       get_reply = (\<lambda>n t name ns.
          GetOk [\<lparr> ctype = Some ''Ready'',
                   cstatus = Some (if name = ''pool1'' then ''True'' else ''False''),
                   cmessage = Some ''Reconciling'' \<rparr>]),
       get_secs = (\<lambda>n. 1),
       yaml_docs = (\<lambda>path. Inl ''No such file or directory'') \<rparr>"

lemma check_details_first_ready:
  assumes "\<forall>i<length before. \<not> reads_ready w (gets st + i) (before ! i)"
    and "reads_ready w (gets st + length before) rd"
  shows "\<exists>l' st'. check_details w rt ms (before @ rd # rest) l st = (True, l', st') \<and>
     gets st' = gets st + length before + 1"
  using assms
proof (induction before arbitrary: l st)
  case Nil
  let ?st1 = "st\<lparr>gets := gets st + 1, now := now st + get_secs w (gets st)\<rparr>"
  from Nil have "reads_ready w (gets st) rd"
    by simp
  then obtain m where "check_resource_status w (rd_type rd) (rd_name rd) (rd_namespace rd) st
      = ((True, m), ?st1)"
    by (simp add: check_resource_status_def reads_ready_def prod_eq_iff)
  then show ?case
    by (simp add: store_success_pattern_def emit_def)
next
  case (Cons b before)
  let ?r = "status_from (get_reply w (gets st) (rd_type b) (rd_name b) (rd_namespace b))"
  let ?st1 = "st\<lparr>gets := gets st + 1, now := now st + get_secs w (gets st)\<rparr>"
  let ?cur = "rd_name b @ '': '' @ snd ?r"
  from Cons.prems(1) have "\<not> reads_ready w (gets st + 0) ((b # before) ! 0)"
    by blast
  then have nr: "\<not> fst ?r"
    by (simp add: reads_ready_def)
  have c: "check_resource_status w (rd_type b) (rd_name b) (rd_namespace b) st
      = ((False, snd ?r), ?st1)"
    using nr by (simp add: check_resource_status_def prod_eq_iff)
  have p1: "\<forall>i<length before. \<not> reads_ready w (gets st1 + i) (before ! i)"
    if "gets st1 = gets st + 1" for st1
  proof (intro allI impI)
    fix i assume "i < length before"
    then have "Suc i < length (b # before)"
      by simp
    with Cons.prems(1) have "\<not> reads_ready w (gets st + Suc i) ((b # before) ! Suc i)"
      by blast
    with that show "\<not> reads_ready w (gets st1 + i) (before ! i)"
      by simp
  qed
  have p2: "reads_ready w (gets st1 + length before) rd" if "gets st1 = gets st + 1" for st1
    using Cons.prems(2) that by simp
  show ?case
  proof (cases "?cur = l")
    case True
    then have u: "check_details w rt ms ((b # before) @ rd # rest) l st =
        check_details w rt ms (before @ rd # rest) l ?st1"
      using c by (simp add: Let_def)
    have g: "gets ?st1 = gets st + 1"
      by simp
    from Cons.IH [OF p1 [OF g] p2 [OF g], of l] obtain l' st' where
      "check_details w rt ms (before @ rd # rest) l ?st1 = (True, l', st')"
      "gets st' = gets ?st1 + length before + 1"
      by blast
    with u g show ?thesis
      by simp
  next
    case False
    let ?st2 = "emit (StatusLine ?cur) ?st1"
    from False have u: "check_details w rt ms ((b # before) @ rd # rest) l st =
        check_details w rt ms (before @ rd # rest) ?cur ?st2"
      using c by (simp add: Let_def)
    have g: "gets ?st2 = gets st + 1"
      by (simp add: emit_def)
    from Cons.IH [OF p1 [OF g] p2 [OF g], of ?cur] obtain l' st' where
      "check_details w rt ms (before @ rd # rest) ?cur ?st2 = (True, l', st')"
      "gets st' = gets ?st2 + length before + 1"
      by blast
    with u g show ?thesis
      by simp
  qed
qed

text \<open>
  Claim C10. On a pass through the loop (the budget is not used up), when the status
  queries for the sub-resources \<open>before\<close> are not read as ready and the query for \<open>rd\<close>
  is, the loop returns \<open>True\<close> having issued exactly \<open>length before + 1\<close> queries on that
  pass: the sub-resources \<open>rest\<close> after \<open>rd\<close> are not queried, and neither they nor
  those in \<open>before\<close> need to be ready.
\<close>

theorem ready_on_first_ready_sub_resource:
  assumes "now st - monitor_start < expected_time"
    and "\<forall>i<length before. \<not> reads_ready w (gets st + i) (before ! i)"
    and "reads_ready w (gets st + length before) rd"
  shows "fst (monitor_loop w resource_type monitor_start expected_time (before @ rd # rest)
               last_status st) = True \<and>
         gets (snd (monitor_loop w resource_type monitor_start expected_time
                      (before @ rd # rest) last_status st)) = gets st + length before + 1"
proof -
  from check_details_first_ready [OF assms(2,3), of resource_type monitor_start rest last_status]
  obtain l' st' where
    c: "check_details w resource_type monitor_start (before @ rd # rest) last_status st
          = (True, l', st')"
    and g: "gets st' = gets st + length before + 1"
    by blast
  from assms(1) c have "monitor_loop w resource_type monitor_start expected_time
      (before @ rd # rest) last_status st = (True, st')"
    by (simp add: monitor_loop.simps)
  with g show ?thesis
    by simp
qed


theorem ready_on_first_ready_sub_resource_witness:
  "now (init 0) - 0 < (1800::nat) \<and>
   \<not> reads_ready only_pool_ready 0 rd_cluster \<and>
   reads_ready only_pool_ready 1 rd_pool \<and>
   \<not> reads_ready only_pool_ready 2 rd_group \<and>
   fst (monitor_loop only_pool_ready ''cluster'' 0 1800 [rd_cluster, rd_pool, rd_group] []
          (init 0)) = True \<and>
   gets (snd (monitor_loop only_pool_ready ''cluster'' 0 1800 [rd_cluster, rd_pool, rd_group] []
                (init 0))) = 2"
proof -
  have a: "now (init 0) - 0 < (1800::nat)"
    by (simp add: init_def)
  have r: "\<not> reads_ready only_pool_ready n rd_cluster" "reads_ready only_pool_ready n rd_pool"
    "\<not> reads_ready only_pool_ready n rd_group" for n
    by (simp_all add: reads_ready_def only_pool_ready_def status_from_def rd_cluster_def
        rd_pool_def rd_group_def)
  have b: "\<forall>i<length [rd_cluster]. \<not> reads_ready only_pool_ready (gets (init 0) + i) ([rd_cluster] ! i)"
    using r(1) by simp
  have c: "reads_ready only_pool_ready (gets (init 0) + length [rd_cluster]) rd_pool"
    using r(2) by simp
  from ready_on_first_ready_sub_resource [OF a b c, of "''cluster''" "[rd_group]" "[]"]
  have "fst (monitor_loop only_pool_ready ''cluster'' 0 1800 [rd_cluster, rd_pool, rd_group] []
          (init 0)) = True"
    and "gets (snd (monitor_loop only_pool_ready ''cluster'' 0 1800 [rd_cluster, rd_pool, rd_group] []
                (init 0))) = 2"
    by (simp_all add: init_def)
  with a r show ?thesis
    by blast
qed


subsection \<open>Repeated status lines\<close>

text \<open>
  A resource file with two documents, neither of which becomes ready and both of which
  report the same message on every query; \<open>status_lines\<close> are the status lines printed,
  in order.
\<close>

definition doc_pool :: yaml_doc where
  "doc_pool = \<lparr> kind = Some ''ManagedClustersAgentPool'',
      metadata = Some \<lparr> md_name = Some ''pool1'', md_namespace = Some ''azure-system'' \<rparr> \<rparr>"

definition two_documents :: world where
  "two_documents =
     \<lparr> apply_reply = (\<lambda>n path. \<lparr> returncode = 0, stdout = ''configured'', stderr = [] \<rparr>),
       get_reply = (\<lambda>n t name ns.
          GetOk [\<lparr> ctype = Some ''Ready'', cstatus = Some ''False'',
                   cmessage = Some ''Reconciling'' \<rparr>]),
       get_secs = (\<lambda>n. 0),
       yaml_docs = (\<lambda>path. Inr [Some doc_cluster, Some doc_pool]) \<rparr>"

definition status_lines :: "deployer \<Rightarrow> string list" where
  "status_lines st = concat (map (\<lambda>e. case e of StatusLine s \<Rightarrow> [s] | _ \<Rightarrow> []) (out st))"

text \<open>
  With one sub-resource whose message does not change, one status line is printed for the
  whole poll.
\<close>

lemma status_line_once:
  "status_lines (snd (monitor_with_memory_updates (reconciling 0) ''extension.yaml'' (init 0))) =
     [''aks: Reconciling'']"
  by code_simp

text \<open>
  Claim C7 fails on the code. \<open>last_status\<close> is one variable for all sub-resources of
  the file, so with two sub-resources the line of each differs from the line printed just
  before it, and both are printed again on every pass: over the 20 passes of the poll of
  \<open>extension.yaml\<close>, the unchanged message of each sub-resource is printed 20 times.
\<close>

theorem status_lines_repeated:
  "status_lines (snd (monitor_with_memory_updates two_documents ''extension.yaml'' (init 0))) =
     concat (replicate 20 [''aks: Reconciling'', ''pool1: Reconciling''])"
  by code_simp


section \<open>Validation of the certificate manager: \<open>validate-cert-manager.py\<close>\<close>

subsection \<open>Strings\<close>

text \<open>\<open>needle in haystack\<close> on strings.\<close>

fun contains :: "string \<Rightarrow> string \<Rightarrow> bool" where
  "contains needle [] = (needle = [])"
| "contains needle (c # s) = (take (length needle) (c # s) = needle \<or> contains needle s)"

text \<open>\<open>str.strip()\<close>: the ASCII characters for which \<open>str.isspace\<close> holds are removed at
  both ends.\<close>

definition is_space :: "char \<Rightarrow> bool" where
  "is_space c = (let n = (of_char c :: nat) in (9 \<le> n \<and> n \<le> 13) \<or> (28 \<le> n \<and> n \<le> 32))"

definition strip :: "string \<Rightarrow> string" where
  "strip s = rev (dropWhile is_space (rev (dropWhile is_space s)))"

subsection \<open>Data\<close>

text \<open>
  What a command gives back: with \<open>check=True\<close> a non-zero exit code makes \<open>run_kubectl\<close>
  and \<open>run_az\<close> print the error and return \<open>None\<close> (\<open>Failed\<close>, with the stderr);
  otherwise the standard output is returned. Where the check parses the output with
  \<open>json.loads\<close>, the output is not JSON (\<open>JSONDecodeError\<close>), or is JSON on which the
  accesses of the check raise another exception (with its text), or has the content the
  check reads.
\<close>

datatype 'a reply = Failed string | Completed 'a

datatype 'a parsed = NotJson | Unexpected string | Json 'a

record pod =
  pod_name :: string
  phase :: string

record service_account =
  annotations :: "string \<rightharpoonup> string"
  labels :: "string \<rightharpoonup> string"

record issuer =
  issuer_name :: string
  issuer_conditions :: "(string \<times> string) list"

text \<open>
  The cluster and the DNS zone as the script sees them. The three last fields are for the
  issuance test: the answers to the readiness query and to \<open>describe\<close> on the \<open>n\<close>-th
  pass of its loop, and the seconds the commands of that pass take.
\<close>

record cluster_view =
  crd_listing :: "string reply"
  pod_listing :: "pod list parsed reply"
  cert_manager_account :: "service_account parsed reply"
  clusterissuer_listing :: "issuer list parsed reply"
  acme_records :: "string list parsed reply"
  certificate_apply :: "string reply"
  certificate_ready :: "nat \<Rightarrow> string reply"
  certificate_describe :: "nat \<Rightarrow> string reply"
  pass_secs :: "nat \<Rightarrow> nat"

text \<open>The lines printed, by kind; the interpolated values are the arguments.\<close>

datatype printed_line =
    Announce string
  | CommandFailed string string
  | Good string
  | Bad string
  | Info string
  | RunningCheck string
  | CheckRaised string
  | SummaryRow string bool
  | Overall nat nat
  | AllPassed
  | SomeFailed

text \<open>
  The instance of \<open>CertManagerValidator\<close>, the wall clock, the number of passes of the
  issuance loop begun so far, and the output.
\<close>

record validator =
  v_namespace :: string
  dns_zone :: string
  cluster :: string
  client_id :: string
  results :: "(string \<times> bool) list"
  v_now :: nat
  passes :: nat
  printed :: "printed_line list"

definition validator_init :: "nat \<Rightarrow> validator" where
  "validator_init t = \<lparr> v_namespace = ''cert-manager'', dns_zone = ''davidmarkgardiner.co.uk'',
      cluster = ''uk8s-tsshared-weu-gt025-int-prod'',
      client_id = ''1317ba0a-60d3-4f05-b41e-483ed1d6acb3'',
      results = [], v_now = t, passes = 0, printed = [] \<rparr>"

definition say :: "printed_line \<Rightarrow> validator \<Rightarrow> validator" where
  "say n st = st\<lparr>printed := printed st @ [n]\<rparr>"

definition record_result :: "string \<Rightarrow> bool \<Rightarrow> validator \<Rightarrow> validator" where
  "record_result name success st = st\<lparr>results := results st @ [(name, success)]\<rparr>"

subsection \<open>Commands\<close>

text \<open>\<open>run_kubectl\<close> and \<open>run_az\<close> with \<open>check=True\<close>, for the command \<open>cmd\<close>.\<close>

definition run_kubectl :: "string \<Rightarrow> 'a reply \<Rightarrow> validator \<Rightarrow> 'a option \<times> validator" where
  "run_kubectl cmd r st =
     (case r of
        Failed err \<Rightarrow> (None, say (CommandFailed cmd err) st)
      | Completed x \<Rightarrow> (Some x, st))"

definition run_az :: "string \<Rightarrow> 'a reply \<Rightarrow> validator \<Rightarrow> 'a option \<times> validator" where
  "run_az cmd r st =
     (case r of
        Failed err \<Rightarrow> (None, say (CommandFailed cmd err) st)
      | Completed x \<Rightarrow> (Some x, st))"

subsection \<open>The checks\<close>

text \<open>
  A check returns \<open>Inr\<close> its boolean, or \<open>Inl\<close> the text of an exception that escapes
  it.
\<close>

definition required_crds :: "string list" where
  "required_crds = [''certificates.cert-manager.io'', ''certificaterequests.cert-manager.io'',
     ''issuers.cert-manager.io'', ''clusterissuers.cert-manager.io'',
     ''challenges.acme.cert-manager.io'', ''orders.acme.cert-manager.io'']"

definition check_crds_installed :: "cluster_view \<Rightarrow> validator \<Rightarrow> (string + bool) \<times> validator" where
  "check_crds_installed w st =
     (case run_kubectl ''get crd'' (crd_listing w) (say (Announce ''cert-manager CRDs'') st) of
        (None, st1) \<Rightarrow> (Inr False, st1)
      | (Some listing, st1) \<Rightarrow>
          (let missing = filter (\<lambda>crd. \<not> contains crd listing) required_crds;
               success = (missing = [])
           in (Inr success,
               record_result ''CRDs Installed'' success
                 (say (if success then Good ''All required CRDs are installed''
                       else Bad ''Missing CRDs'') st1))))"

definition expected_pods :: "string list" where
  "expected_pods = [''cert-manager'', ''cert-manager-webhook'', ''cert-manager-cainjector'']"

text \<open>The two nested loops over the pods and the expected names.\<close>

definition running_pods :: "pod list \<Rightarrow> string list" where
  "running_pods pods =
     concat (map (\<lambda>p. filter (\<lambda>expected. contains expected (pod_name p) \<and> phase p = ''Running'')
                          expected_pods) pods)"

definition pod_lines :: "pod list \<Rightarrow> printed_line list" where
  "pod_lines pods =
     concat (map (\<lambda>p. map (\<lambda>expected. if phase p = ''Running'' then Good expected
                                       else Bad (expected @ '' status: '' @ phase p))
                          (filter (\<lambda>expected. contains expected (pod_name p)) expected_pods)) pods)"

definition check_cert_manager_pods :: "cluster_view \<Rightarrow> validator \<Rightarrow> (string + bool) \<times> validator" where
  "check_cert_manager_pods w st =
     (case run_kubectl ''get pods'' (pod_listing w) (say (Announce ''cert-manager pods'') st) of
        (None, st1) \<Rightarrow> (Inr False, st1)
      | (Some NotJson, st1) \<Rightarrow> (Inr False, say (Bad ''Failed to parse pod status'') st1)
      | (Some (Unexpected e), st1) \<Rightarrow> (Inl e, st1)
      | (Some (Json pods), st1) \<Rightarrow>
          (let success = (length (running_pods pods) \<ge> 3)
           in (Inr success,
               record_result ''Cert-Manager Pods'' success
                 (st1\<lparr>printed := printed st1 @ pod_lines pods\<rparr>))))"

definition is_ready_issuer :: "issuer \<Rightarrow> bool" where
  "is_ready_issuer i = (\<exists>c \<in> set (issuer_conditions i). fst c = ''Ready'' \<and> snd c = ''True'')"

definition check_clusterissuers :: "cluster_view \<Rightarrow> validator \<Rightarrow> (string + bool) \<times> validator" where
  "check_clusterissuers w st =
     (case run_kubectl ''get clusterissuer'' (clusterissuer_listing w)
             (say (Announce ''ClusterIssuers'') st) of
        (None, st1) \<Rightarrow> (Inr False, st1)
      | (Some NotJson, st1) \<Rightarrow> (Inr False, say (Bad ''Failed to parse ClusterIssuer status'') st1)
      | (Some (Unexpected e), st1) \<Rightarrow> (Inl e, st1)
      | (Some (Json issuers), st1) \<Rightarrow>
          (let ready_issuers = map issuer_name (filter is_ready_issuer issuers);
               success = (length ready_issuers \<ge> 2)
           in (Inr success,
               record_result ''ClusterIssuers Ready'' success
                 (st1\<lparr>printed := printed st1 @
                    map (\<lambda>i. if is_ready_issuer i then Good (issuer_name i)
                              else Bad (issuer_name i)) issuers\<rparr>))))"

definition check_workload_identity :: "cluster_view \<Rightarrow> validator \<Rightarrow> (string + bool) \<times> validator" where
  "check_workload_identity w st =
     (case run_kubectl ''get serviceaccount'' (cert_manager_account w)
             (say (Announce ''Azure Workload Identity configuration'') st) of
        (None, st1) \<Rightarrow> (Inr False, st1)
      | (Some NotJson, st1) \<Rightarrow>
          (Inr False, say (Bad ''Failed to parse service account configuration'') st1)
      | (Some (Unexpected e), st1) \<Rightarrow> (Inl e, st1)
      | (Some (Json data), st1) \<Rightarrow>
          (let client_id_annotation = annotations data ''azure.workload.identity/client-id'';
               workload_label = labels data ''azure.workload.identity/use''
           in if client_id_annotation = Some (client_id st1)
              then (let st2 = say (Good ''Service account has correct client ID'') st1
                    in if workload_label = Some ''true''
                       then (Inr True,
                             record_result ''Workload Identity Config'' True
                               (say (Good ''Service account has workload identity label'') st2))
                       else (Inr False,
                             say (Bad ''Service account missing workload identity label'') st2))
              else (Inr False, say (Bad ''Service account client ID mismatch'') st1)))"

definition check_azure_permissions :: "cluster_view \<Rightarrow> validator \<Rightarrow> (string + bool) \<times> validator" where
  "check_azure_permissions w st =
     (case run_az ''network dns record-set txt list'' (acme_records w)
             (say (Announce ''Azure DNS permissions'') st) of
        (None, st1) \<Rightarrow> (Inr False, say (Bad ''Cannot access Azure DNS zone'') st1)
      | (Some NotJson, st1) \<Rightarrow> (Inr False, say (Bad ''Failed to parse DNS records'') st1)
      | (Some (Unexpected e), st1) \<Rightarrow> (Inl e, st1)
      | (Some (Json records), st1) \<Rightarrow>
          (Inr True,
           record_result ''Azure DNS Permissions'' True
             (say (if records \<noteq> [] then Good ''Found ACME challenge records''
                   else Info ''No ACME challenge records found'') st1)))"

subsection \<open>Summary and entry point\<close>

definition generate_summary :: "validator \<Rightarrow> bool \<times> validator" where
  "generate_summary st =
     (let passed = length (filter snd (results st));
          total = length (results st);
          st1 = say (Overall passed total)
                  (st\<lparr>printed := printed st @ map (\<lambda>(check_name, success). SummaryRow check_name success)
                                               (results st)\<rparr>)
      in if passed = total then (True, say AllPassed st1) else (False, say SomeFailed st1))"

text \<open>
  One pass of the loop of \<open>run_all_validations\<close>: the value the check returns is dropped;
  an exception that escapes it is recorded as a failed result under the name of the
  loop.
\<close>

definition run_check ::
  "string \<Rightarrow> (validator \<Rightarrow> (string + bool) \<times> validator) \<Rightarrow> validator \<Rightarrow> validator" where
  "run_check name check_func st =
     (case check_func (say (RunningCheck name) st) of
        (Inr returned, st1) \<Rightarrow> st1
      | (Inl e, st1) \<Rightarrow> record_result name False (say (CheckRaised e) st1))"

definition checks ::
  "cluster_view \<Rightarrow> (string \<times> (validator \<Rightarrow> (string + bool) \<times> validator)) list" where
  "checks w = [(''CRDs Installation'', check_crds_installed w),
               (''Pod Status'', check_cert_manager_pods w),
               (''Workload Identity'', check_workload_identity w),
               (''ClusterIssuers'', check_clusterissuers w),
               (''Azure DNS Permissions'', check_azure_permissions w)]"

definition run_all_validations :: "cluster_view \<Rightarrow> validator \<Rightarrow> bool \<times> validator" where
  "run_all_validations w st =
     generate_summary (foldl (\<lambda>s (name, check_func). run_check name check_func s) st (checks w))"

text \<open>The script run at time \<open>t\<close>: its exit code.\<close>

definition validate_exit_code :: "cluster_view \<Rightarrow> nat \<Rightarrow> int" where
  "validate_exit_code w t = (if fst (run_all_validations w (validator_init t)) then 0 else 1)"

subsection \<open>The issuance test\<close>

text \<open>
  What the loop of \<open>test_certificate_issuance\<close> tests on the two answers of a pass:
  the readiness query printed \<open>True\<close>, and the description contains \<open>Error\<close>. A
  command that failed gives \<open>None\<close>, which passes neither test.
\<close>

definition reports_issued :: "string reply \<Rightarrow> bool" where
  "reports_issued r = (case r of Failed err \<Rightarrow> False | Completed text \<Rightarrow> strip text = ''True'')"

definition reports_error :: "string reply \<Rightarrow> bool" where
  "reports_error r = (case r of Failed err \<Rightarrow> False | Completed text \<Rightarrow> contains ''Error'' text)"

lemma run_kubectl_now: "run_kubectl cmd r st = (x, st') \<Longrightarrow> v_now st' = v_now st"
  by (auto simp: run_kubectl_def say_def split: reply.splits)

text \<open>
  The \<open>while\<close> loop: \<open>True\<close> when the function returned from inside it, \<open>False\<close> when
  it was left by \<open>break\<close> or ran out. The commands of the \<open>n\<close>-th pass take
  \<open>pass_secs w n\<close> seconds; the pass ends with a sleep of 10 seconds. The clean-up
  \<open>kubectl delete\<close>, whose result is not looked at, is left out.
\<close>

function issuance_loop :: "cluster_view \<Rightarrow> nat \<Rightarrow> nat \<Rightarrow> validator \<Rightarrow> bool \<times> validator" where
  "issuance_loop w start_time timeout_seconds st =
     (if v_now st - start_time < timeout_seconds
      then (case run_kubectl ''get certificate'' (certificate_ready w (passes st))
                   (st\<lparr>passes := passes st + 1, v_now := v_now st + pass_secs w (passes st)\<rparr>) of
              (result, st1) \<Rightarrow>
                if (case result of None \<Rightarrow> False | Some text \<Rightarrow> strip text = ''True'')
                then (True, say (Good ''Certificate issued successfully'') st1)
                else (case run_kubectl ''describe certificate''
                             (certificate_describe w (passes st)) st1 of
                        (cert_status, st2) \<Rightarrow>
                          if (case cert_status of None \<Rightarrow> False
                              | Some text \<Rightarrow> contains ''Error'' text)
                          then (False, say (Bad ''Certificate issuance failed'') st2)
                          else issuance_loop w start_time timeout_seconds
                                 (st2\<lparr>v_now := v_now st2 + 10\<rparr>)))
      else (False, st))"
  by pat_completeness auto
termination
proof (relation "measure (\<lambda>(w, start_time, timeout_seconds, st).
    start_time + timeout_seconds - v_now st)", goal_cases)
  case 1
  show ?case by simp
next
  case prems: 2
  from prems(2) [symmetric] prems(4) [symmetric] prems(1) show ?case
    by (auto dest!: run_kubectl_now)
qed

declare issuance_loop.simps [simp del]

definition test_certificate_issuance ::
  "cluster_view \<Rightarrow> nat \<Rightarrow> validator \<Rightarrow> (string + bool) \<times> validator" where
  "test_certificate_issuance w timeout_seconds st =
     (case run_kubectl ''apply'' (certificate_apply w)
             (say (Announce ''certificate issuance'') st) of
        (None, st1) \<Rightarrow> (Inr False, st1)
      | (Some applied, st1) \<Rightarrow>
          (let st2 = say (Good ''Created test certificate'') st1;
               start_time = v_now st2
           in case issuance_loop w start_time timeout_seconds st2 of
                (True, st3) \<Rightarrow>
                  (Inr True, record_result ''Certificate Issuance Test'' True st3)
              | (False, st3) \<Rightarrow>
                  (Inr False,
                   record_result ''Certificate Issuance Test'' False
                     (say (Bad ''Certificate issuance timed out'') st3))))"


section \<open>Terminal errors while polling\<close>

text \<open>
  A certificate whose issuance fails on the third pass of the loop, and a control plane
  whose status queries always answer with an error message under a \<open>Ready\<close> condition of
  status \<open>False\<close>.
\<close>

definition issuance_fails :: cluster_view where
  "issuance_fails =
     \<lparr> crd_listing = Failed ''connection refused'',
       pod_listing = Failed ''connection refused'',
       cert_manager_account = Failed ''connection refused'',
       clusterissuer_listing = Failed ''connection refused'',
       acme_records = Failed ''not logged in'',
       certificate_apply = Completed ''certificate.cert-manager.io/test-cert created'',
       certificate_ready = (\<lambda>n. Completed ''False''),
       certificate_describe = (\<lambda>n. Completed
          (if n < 2 then ''Status: Issuing''
           else ''Warning  Failed  Error accepting authorization: acme: authorization error'')),
       pass_secs = (\<lambda>n. 1) \<rparr>"

definition terminal_error :: world where
  "terminal_error =
     \<lparr> apply_reply = (\<lambda>n path. \<lparr> returncode = 0, stdout = ''configured'', stderr = [] \<rparr>),
       get_reply = (\<lambda>n t name ns.
          GetOk [\<lparr> ctype = Some ''Ready'', cstatus = Some ''False'',
                   cmessage = Some ''Error: quota exceeded, provisioning failed and will not be retried'' \<rparr>]),
       get_secs = (\<lambda>n. 0),
       yaml_docs = (\<lambda>path. Inr [Some doc_cluster]) \<rparr>"

lemma issuance_loop_error:
  assumes "v_now st - start_time < timeout_seconds"
    and "\<not> reports_issued (certificate_ready w (passes st))"
    and "reports_error (certificate_describe w (passes st))"
  shows "issuance_loop w start_time timeout_seconds st =
     (False, say (Bad ''Certificate issuance failed'')
        (snd (run_kubectl ''describe certificate'' (certificate_describe w (passes st))
           (snd (run_kubectl ''get certificate'' (certificate_ready w (passes st))
              (st\<lparr>passes := passes st + 1, v_now := v_now st + pass_secs w (passes st)\<rparr>))))))"
proof -
  let ?st0 = "st\<lparr>passes := passes st + 1, v_now := v_now st + pass_secs w (passes st)\<rparr>"
  obtain result st1 where
    g: "run_kubectl ''get certificate'' (certificate_ready w (passes st)) ?st0 = (result, st1)"
    by (metis surj_pair)
  have nr: "\<not> (case result of None \<Rightarrow> False | Some text \<Rightarrow> strip text = ''True'')"
    using g assms(2) by (auto simp: run_kubectl_def reports_issued_def split: reply.splits)
  obtain cert_status st2 where
    d: "run_kubectl ''describe certificate'' (certificate_describe w (passes st)) st1
          = (cert_status, st2)"
    by (metis surj_pair)
  have er: "case cert_status of None \<Rightarrow> False | Some text \<Rightarrow> contains ''Error'' text"
    using d assms(3) by (auto simp: run_kubectl_def reports_error_def split: reply.splits)
  show ?thesis
    using assms(1) g nr d er
    by (simp add: issuance_loop.simps [of w start_time timeout_seconds st])
qed

lemma run_kubectl_frame:
  "passes (snd (run_kubectl cmd r st)) = passes st"
  "v_now (snd (run_kubectl cmd r st)) = v_now st"
  "results (snd (run_kubectl cmd r st)) = results st"
  by (simp_all add: run_kubectl_def say_def split: reply.splits)

text \<open>
  Claim C4, as the code has it, for the poll of the issuance test. On a pass on which the
  readiness query does not print \<open>True\<close> and the description of the certificate contains
  \<open>Error\<close>, the loop is left at once: the result is \<open>False\<close>, no further pass is begun
  and the 10-second sleep is not taken, although the budget is not used up. When this
  happens on the first pass of \<open>test_certificate_issuance\<close>, the test returns \<open>False\<close>
  and records a failed result. The value returned is the boolean alone.
\<close>

theorem issuance_stops_on_error:
  assumes "v_now st - start_time < timeout_seconds"
    and "\<not> reports_issued (certificate_ready w (passes st))"
    and "reports_error (certificate_describe w (passes st))"
  shows "fst (issuance_loop w start_time timeout_seconds st) = False \<and>
     passes (snd (issuance_loop w start_time timeout_seconds st)) = passes st + 1 \<and>
     v_now (snd (issuance_loop w start_time timeout_seconds st)) =
       v_now st + pass_secs w (passes st) \<and>
     (start_time = v_now st \<and> results st = rs \<longrightarrow>
        (\<forall>applied. certificate_apply w = Completed applied \<longrightarrow>
           fst (test_certificate_issuance w timeout_seconds st) = Inr False \<and>
           results (snd (test_certificate_issuance w timeout_seconds st)) =
             rs @ [(''Certificate Issuance Test'', False)] \<and>
           passes (snd (test_certificate_issuance w timeout_seconds st)) = passes st + 1))"
proof -
  note l = issuance_loop_error [OF assms]
  have a: "fst (issuance_loop w start_time timeout_seconds st) = False"
    and b: "passes (snd (issuance_loop w start_time timeout_seconds st)) = passes st + 1"
    and c: "v_now (snd (issuance_loop w start_time timeout_seconds st)) =
       v_now st + pass_secs w (passes st)"
    unfolding l by (simp_all add: say_def run_kubectl_frame)
  have d: "fst (test_certificate_issuance w timeout_seconds st) = Inr False \<and>
           results (snd (test_certificate_issuance w timeout_seconds st)) =
             rs @ [(''Certificate Issuance Test'', False)] \<and>
           passes (snd (test_certificate_issuance w timeout_seconds st)) = passes st + 1"
    if s: "start_time = v_now st" and r: "results st = rs"
      and ap: "certificate_apply w = Completed applied" for applied
  proof -
    let ?st2 = "say (Good ''Created test certificate'') (say (Announce ''certificate issuance'') st)"
    have e: "v_now ?st2 = v_now st" "passes ?st2 = passes st" "results ?st2 = results st"
      by (simp_all add: say_def)
    have "v_now ?st2 - v_now ?st2 < timeout_seconds"
      using assms(1) s by simp
    from issuance_loop_error [OF this, of w] assms(2,3) e
    obtain st3 where l2: "issuance_loop w (v_now ?st2) timeout_seconds ?st2 = (False, st3)"
      and p3: "passes st3 = passes st + 1" and r3: "results st3 = results st"
      by (simp add: say_def run_kubectl_frame)
    show ?thesis
      using ap l2 p3 r3 r
      by (simp add: test_certificate_issuance_def run_kubectl_def Let_def record_result_def
          say_def)
  qed
  from a b c d show ?thesis
    by blast
qed

theorem issuance_stops_on_error_witness:
  "v_now ((validator_init 0)\<lparr>passes := 2, v_now := 22\<rparr>) - 22 < (300::nat) \<and>
   \<not> reports_issued (certificate_ready issuance_fails 2) \<and>
   reports_error (certificate_describe issuance_fails 2) \<and>
   fst (issuance_loop issuance_fails 22 300
          ((validator_init 0)\<lparr>passes := 2, v_now := 22\<rparr>)) = False \<and>
   passes (snd (issuance_loop issuance_fails 22 300
          ((validator_init 0)\<lparr>passes := 2, v_now := 22\<rparr>))) = 3 \<and>
   v_now (snd (issuance_loop issuance_fails 22 300
          ((validator_init 0)\<lparr>passes := 2, v_now := 22\<rparr>))) = 23 \<and>
   fst (test_certificate_issuance issuance_fails 300
          ((validator_init 0)\<lparr>passes := 2, v_now := 22\<rparr>)) = Inr False \<and>
   results (snd (test_certificate_issuance issuance_fails 300
          ((validator_init 0)\<lparr>passes := 2, v_now := 22\<rparr>))) =
     [(''Certificate Issuance Test'', False)] \<and>
   passes (snd (test_certificate_issuance issuance_fails 300
          ((validator_init 0)\<lparr>passes := 2, v_now := 22\<rparr>))) = 3"
proof -
  let ?st = "(validator_init 0)\<lparr>passes := 2, v_now := 22\<rparr>"
  have a: "v_now ?st - 22 < (300::nat)"
    by simp
  have s: "strip ''False'' = ''False''"
    by code_simp
  have b: "\<not> reports_issued (certificate_ready issuance_fails 2)"
    by (simp add: reports_issued_def issuance_fails_def s)
  have e: "contains ''Error''
      ''Warning  Failed  Error accepting authorization: acme: authorization error''"
    by code_simp
  have c: "reports_error (certificate_describe issuance_fails 2)"
    by (simp add: reports_error_def issuance_fails_def e)
  have p: "passes ?st = 2"
    by simp
  have ap: "certificate_apply issuance_fails =
      Completed ''certificate.cert-manager.io/test-cert created''"
    by (simp add: issuance_fails_def)
  from issuance_stops_on_error [of ?st 22 300 issuance_fails "[]"] a b c p ap
  have "fst (issuance_loop issuance_fails 22 300 ?st) = False"
    and "passes (snd (issuance_loop issuance_fails 22 300 ?st)) = 3"
    and "v_now (snd (issuance_loop issuance_fails 22 300 ?st)) = 23"
    and "fst (test_certificate_issuance issuance_fails 300 ?st) = Inr False"
    and "results (snd (test_certificate_issuance issuance_fails 300 ?st)) =
       [(''Certificate Issuance Test'', False)]"
    and "passes (snd (test_certificate_issuance issuance_fails 300 ?st)) = 3"
    by (simp_all add: issuance_fails_def validator_init_def)
  with a b c show ?thesis
    by blast
qed

text \<open>
  The monitor of the deployment script has no such exit: it reads nothing but the
  \<open>Ready\<close> condition, and with an error message on every query the poll of
  \<open>extension.yaml\<close> still issues all 20 queries and returns after the full 600 seconds.
\<close>

theorem monitor_ignores_error_counterexample:
  "status_from (get_reply terminal_error 0 ''managedcluster'' ''aks'' ''azure-system'') =
     (False, ''Error: quota exceeded, provisioning failed and will not be retried'') \<and>
   fst (monitor_with_memory_updates terminal_error ''extension.yaml'' (init 0)) = False \<and>
   gets (snd (monitor_with_memory_updates terminal_error ''extension.yaml'' (init 0))) = 20 \<and>
   now (snd (monitor_with_memory_updates terminal_error ''extension.yaml'' (init 0))) = 600"
proof -
  have nr: "never_reports_ready terminal_error"
    by (simp add: never_reports_ready_def terminal_error_def status_from_def)
  have z: "\<forall>n. get_secs terminal_error n = 0"
    by (simp add: terminal_error_def)
  have d: "fst (get_resource_details terminal_error ''extension.yaml'' (init 0)) =
     [\<lparr> rd_type = ''managedcluster'', rd_name = ''aks'', rd_namespace = ''azure-system'' \<rparr>]"
    by (simp add: get_resource_details_def terminal_error_def doc_cluster_def lower_kind)
  have ne: "[\<lparr> rd_type = ''managedcluster'', rd_name = ''aks'', rd_namespace = ''azure-system'' \<rparr>] \<noteq> []"
    by simp
  have T: "(600::nat) = (if replace_yaml ''extension.yaml'' = ''cluster'' then 1800
            else if replace_yaml ''extension.yaml'' = ''extension'' then 600 else 300)"
    by simp
  have k: "ticks 600 30 = 20"
    by (simp add: ticks_def)
  have s: "status_from (get_reply terminal_error 0 ''managedcluster'' ''aks'' ''azure-system'') =
     (False, ''Error: quota exceeded, provisioning failed and will not be retried'')"
    by (simp add: terminal_error_def status_from_def)
  from monitor_never_ready [OF nr z d ne T] k s show ?thesis
    by (auto simp: init_def)
qed


section \<open>Report of the mesh test suite: \<open>istio_test_suite.py\<close>\<close>

datatype py_error = ZeroDivisionError

text \<open>\<open>a / b\<close> on integers; the quotient is kept exact.\<close>

definition truediv :: "nat \<Rightarrow> nat \<Rightarrow> py_error + rat" where
  "truediv a b = (if b = 0 then Inl ZeroDivisionError else Inr (of_nat a / of_nat b))"

text \<open>
  An entry of \<open>self.test_results\<close> (its time stamp and details are not read by the
  report's verdict and are left out), a security finding, and the two lists of the suite.
\<close>

record test_result =
  test :: string
  passed :: bool

record finding =
  severity :: string
  finding_type :: string
  description :: string
  remediation :: string

record suite =
  test_results :: "test_result list"
  security_findings :: "finding list"

text \<open>
  The \<open>executive_summary\<close> of the report; \<open>test_pass_rate\<close> is the number that the
  script formats with one decimal. The other parts of the report do not enter the
  verdict.
\<close>

record executive_summary =
  overall_status :: string
  test_pass_rate :: rat
  total_tests :: nat
  passed_tests :: nat
  failed_tests :: nat
  critical_security_issues :: nat
  high_security_issues :: nat

definition generate_report :: "suite \<Rightarrow> py_error + executive_summary" where
  "generate_report s =
     (let total_tests = length (test_results s);
          passed_tests = length (filter passed (test_results s))
      in case (if total_tests > 0
               then (case truediv passed_tests total_tests of
                       Inl e \<Rightarrow> Inl e
                     | Inr q \<Rightarrow> Inr (q * 100))
               else Inr 0) of
           Inl e \<Rightarrow> Inl e
         | Inr pass_rate \<Rightarrow>
             (let critical_findings = filter (\<lambda>f. severity f = ''CRITICAL'') (security_findings s);
                  high_findings = filter (\<lambda>f. severity f = ''HIGH'') (security_findings s)
              in Inr \<lparr> overall_status =
                         (if pass_rate \<ge> 80 \<and> length critical_findings = 0
                          then ''PASS'' else ''FAIL''),
                       test_pass_rate = pass_rate,
                       total_tests = total_tests,
                       passed_tests = passed_tests,
                       failed_tests = total_tests - passed_tests,
                       critical_security_issues = length critical_findings,
                       high_security_issues = length high_findings \<rparr>))"

text \<open>The exit code of the script for the lists the tests have filled.\<close>

definition suite_exit_code :: "suite \<Rightarrow> int" where
  "suite_exit_code s =
     (case generate_report s of
        Inl e \<Rightarrow> 2
      | Inr report \<Rightarrow> if overall_status report = ''PASS'' then 0 else 1)"

section \<open>Aggregation of outcomes\<close>

subsection \<open>Threshold with veto\<close>

text \<open>Five tests of which four passed, and a finding of severity \<open>CRITICAL\<close>.\<close>

definition four_of_five :: "test_result list" where
  "four_of_five = [\<lparr> test = ''control_plane_health'', passed = True \<rparr>,
     \<lparr> test = ''sidecar_injection'', passed = True \<rparr>,
     \<lparr> test = ''gateway_routing'', passed = True \<rparr>,
     \<lparr> test = ''canary_routing'', passed = False \<rparr>,
     \<lparr> test = ''destination_rules'', passed = True \<rparr>]"

definition critical_finding :: finding where
  "critical_finding = \<lparr> severity = ''CRITICAL'', finding_type = ''mtls_not_strict'',
     description = ''mTLS is not strict'', remediation = ''Set the mode to STRICT'' \<rparr>"

lemma generate_report_unfold:
  "generate_report s = Inr
     \<lparr> overall_status =
         (if 0 < length (test_results s) \<and>
             4 / 5 \<le> (of_nat (length (filter passed (test_results s))) :: rat) /
                      of_nat (length (test_results s)) \<and>
             length (filter (\<lambda>f. severity f = ''CRITICAL'') (security_findings s)) = 0
          then ''PASS'' else ''FAIL''),
       test_pass_rate =
         (if 0 < length (test_results s)
          then of_nat (length (filter passed (test_results s))) /
               of_nat (length (test_results s)) * 100
          else 0),
       total_tests = length (test_results s),
       passed_tests = length (filter passed (test_results s)),
       failed_tests = length (test_results s) - length (filter passed (test_results s)),
       critical_security_issues =
         length (filter (\<lambda>f. severity f = ''CRITICAL'') (security_findings s)),
       high_security_issues =
         length (filter (\<lambda>f. severity f = ''HIGH'') (security_findings s)) \<rparr>"
proof (cases "0 < length (test_results s)")
  case True
  then have "(80 \<le> (of_nat (length (filter passed (test_results s))) :: rat) /
                of_nat (length (test_results s)) * 100) =
             (4 / 5 \<le> (of_nat (length (filter passed (test_results s))) :: rat) /
                of_nat (length (test_results s)))"
    by (simp add: field_simps)
  with True show ?thesis
    by (simp add: generate_report_def truediv_def Let_def)
next
  case False
  then show ?thesis
    by (simp add: generate_report_def truediv_def Let_def)
qed

text \<open>
  Claim C6. \<open>generate_report\<close> never fails, and its verdict is \<open>PASS\<close> exactly when
  there is at least one test, the fraction of passed tests is at least \<open>0.8\<close>, and no
  finding has severity \<open>CRITICAL\<close>; otherwise it is \<open>FAIL\<close>. With four of five tests
  passed the verdict is \<open>PASS\<close> without findings and \<open>FAIL\<close> with one critical finding.
  The script computes the rate in floating point; here the quotient is exact, and for
  four of five the floating-point rate is exactly \<open>80.0\<close> as well.
\<close>

theorem threshold_with_veto:
  "(\<exists>report. generate_report s = Inr report \<and>
      total_tests report = length (test_results s) \<and>
      passed_tests report = length (filter passed (test_results s)) \<and>
      (overall_status report = ''PASS'' \<or> overall_status report = ''FAIL'') \<and>
      ((overall_status report = ''PASS'') =
         (0 < total_tests report \<and>
          4 / 5 \<le> (of_nat (passed_tests report) :: rat) / of_nat (total_tests report) \<and>
          length (filter (\<lambda>f. severity f = ''CRITICAL'') (security_findings s)) = 0))) \<and>
   map_sum id overall_status
     (generate_report \<lparr> test_results = four_of_five, security_findings = [] \<rparr>) = Inr ''PASS'' \<and>
   map_sum id overall_status
     (generate_report \<lparr> test_results = four_of_five, security_findings = [critical_finding] \<rparr>)
       = Inr ''FAIL''"
proof -
  have "\<exists>report. generate_report s = Inr report \<and>
      total_tests report = length (test_results s) \<and>
      passed_tests report = length (filter passed (test_results s)) \<and>
      (overall_status report = ''PASS'' \<or> overall_status report = ''FAIL'') \<and>
      ((overall_status report = ''PASS'') =
         (0 < total_tests report \<and>
          4 / 5 \<le> (of_nat (passed_tests report) :: rat) / of_nat (total_tests report) \<and>
          length (filter (\<lambda>f. severity f = ''CRITICAL'') (security_findings s)) = 0))"
    unfolding generate_report_unfold [of s] by simp
  moreover have "map_sum id overall_status
     (generate_report \<lparr> test_results = four_of_five, security_findings = [] \<rparr>) = Inr ''PASS''"
    unfolding generate_report_unfold by (simp add: four_of_five_def)
  moreover have "map_sum id overall_status
     (generate_report \<lparr> test_results = four_of_five, security_findings = [critical_finding] \<rparr>)
       = Inr ''FAIL''"
    unfolding generate_report_unfold by (simp add: four_of_five_def critical_finding_def)
  ultimately show ?thesis
    by blast
qed

subsection \<open>No outcomes\<close>

text \<open>A cluster that cannot be reached: every command of the validation script fails.\<close>

definition all_commands_fail :: cluster_view where
  "all_commands_fail =
     \<lparr> crd_listing = Failed ''connection refused'',
       pod_listing = Failed ''connection refused'',
       cert_manager_account = Failed ''connection refused'',
       clusterissuer_listing = Failed ''connection refused'',
       acme_records = Failed ''Please run az login'',
       certificate_apply = Failed ''connection refused'',
       certificate_ready = (\<lambda>n. Failed ''connection refused''),
       certificate_describe = (\<lambda>n. Failed ''connection refused''),
       pass_secs = (\<lambda>n. 1) \<rparr>"

text \<open>
  Claim C5 fails on the code for the unanimous verdict of \<open>generate_summary\<close>. With no
  result recorded it compares \<open>0 == 0\<close> and returns \<open>True\<close>; this is what happens when
  every command fails, since each check then returns early without recording anything,
  and the script exits with code 0. The threshold verdict of \<open>generate_report\<close> is
  \<open>FAIL\<close> for no tests, by its test \<open>total_tests > 0\<close>.
\<close>

theorem no_results_all_passed:
  "results (validator_init 0) = [] \<and>
   fst (generate_summary (validator_init 0)) = True \<and>
   fst (check_crds_installed all_commands_fail (validator_init 0)) = Inr False \<and>
   results (snd (run_all_validations all_commands_fail (validator_init 0))) = [] \<and>
   validate_exit_code all_commands_fail 0 = 0 \<and>
   map_sum id overall_status
     (generate_report \<lparr> test_results = [], security_findings = [] \<rparr>) = Inr ''FAIL''"
  by code_simp

subsection \<open>A failed check and the exit code\<close>

text \<open>
  A healthy installation, except that the service account is annotated with another
  client id than the one the script expects.
\<close>

definition wrong_client_id :: cluster_view where
  "wrong_client_id =
     \<lparr> crd_listing = Completed
         (''certificaterequests.cert-manager.io certificates.cert-manager.io '' @
          ''challenges.acme.cert-manager.io clusterissuers.cert-manager.io '' @
          ''issuers.cert-manager.io orders.acme.cert-manager.io''),
       pod_listing = Completed (Json
         [\<lparr> pod_name = ''cert-manager-7d4b5d8484-abcde'', phase = ''Running'' \<rparr>,
          \<lparr> pod_name = ''cert-manager-cainjector-5c5695d979-fghij'', phase = ''Running'' \<rparr>,
          \<lparr> pod_name = ''cert-manager-webhook-7c9f8c8d8-klmno'', phase = ''Running'' \<rparr>]),
       cert_manager_account = Completed (Json
         \<lparr> annotations = [''azure.workload.identity/client-id'' \<mapsto>
                             ''00000000-0000-0000-0000-000000000000''],
           labels = [''azure.workload.identity/use'' \<mapsto> ''true''] \<rparr>),
       clusterissuer_listing = Completed (Json
         [\<lparr> issuer_name = ''letsencrypt-staging-dns01'',
             issuer_conditions = [(''Ready'', ''True'')] \<rparr>,
          \<lparr> issuer_name = ''letsencrypt-prod-dns01'',
             issuer_conditions = [(''Ready'', ''True'')] \<rparr>]),
       acme_records = Completed (Json []),
       certificate_apply = Completed ''created'',
       certificate_ready = (\<lambda>n. Completed ''True''),
       certificate_describe = (\<lambda>n. Completed ''Status: Ready''),
       pass_secs = (\<lambda>n. 1) \<rparr>"

text \<open>
  Claim C8 fails on the code. \<open>check_workload_identity\<close> prints the mismatch and returns
  \<open>False\<close> without recording a result, and \<open>run_all_validations\<close> drops the value a
  check returns; the four other checks pass, the summary counts four of four, and the
  script exits with code 0.
\<close>

theorem failed_check_exit_zero:
  "fst (check_workload_identity wrong_client_id (validator_init 0)) = Inr False \<and>
   results (snd (run_all_validations wrong_client_id (validator_init 0))) =
     [(''CRDs Installed'', True), (''Cert-Manager Pods'', True),
      (''ClusterIssuers Ready'', True), (''Azure DNS Permissions'', True)] \<and>
   fst (run_all_validations wrong_client_id (validator_init 0)) = True \<and>
   validate_exit_code wrong_client_id 0 = 0"
  by code_simp


end
